theory Spec2Isabelle
  imports Complex_Main
begin

section \<open>Conventions of the embedding\<close>

text \<open>
  The theory embeds \<^verbatim>\<open>bandits/agent.py\<close> and \<^verbatim>\<open>bandits/policy.py\<close>.

  \<^item> A numpy array of floats is a \<open>real list\<close>. The methods are first given with exact
    arithmetic, for the properties that hold of the formulas whatever the rounding.
    \<^verbatim>\<open>Agent.observe\<close> is given a second time, as \<open>Agent_observe_f64\<close>, with every float
    operation rounded as IEEE 754 binary64 rounds it: this is the reading for a property
    that says two floats are equal. Where the source can produce the special values
    \<open>inf\<close> and \<open>nan\<close> (the division by the attempt counts in \<^verbatim>\<open>UCBPolicy.choose\<close>) the
    type \<open>npfloat\<close> below carries them.
  \<^item> \<^verbatim>\<open>action_attempts\<close> is created by \<^verbatim>\<open>np.zeros(k)\<close> and only ever changed by
    \<^verbatim>\<open>+= 1\<close> and \<^verbatim>\<open>[:] = 0\<close>: its cells are natural numbers, and it is a \<open>nat list\<close>
    (a float counts exactly up to \<open>2 ^ 53\<close>).
  \<^item> An arm index is a \<open>nat\<close>; \<^verbatim>\<open>last_action\<close>, which is \<^verbatim>\<open>None\<close> until the first
    \<^verbatim>\<open>choose()\<close>, is a \<open>nat option\<close>.
  \<^item> Every method takes the object and returns the changed object; a method that can raise
    returns \<open>error + _\<close>, with \<open>Inl\<close> the exception.
  \<^item> \<open>NotFinite\<close> is not an exception. Outside \<^verbatim>\<open>UCBPolicy.choose\<close> a division of floats
    by zero makes numpy continue with \<open>inf\<close> or \<open>nan\<close> in a cell, which a \<open>real\<close> cannot
    hold; the model stops there with \<open>Inl NotFinite\<close>, so that every \<open>Inr\<close> result is a
    state the source reaches.
  \<^item> A subclass is a record extension, so the methods of \<^verbatim>\<open>Agent\<close> are defined on the
    record scheme and are inherited by the subclasses that do not override them.
  \<^item> \<^verbatim>\<open>/\<close> is Python 3's true division.
  \<^item> Draws from the random number generator are not modelled: \<^verbatim>\<open>EpsilonGreedyPolicy.choose\<close>,
    \<^verbatim>\<open>SoftmaxPolicy.choose\<close> and the tie-break of \<^verbatim>\<open>UCBPolicy.choose\<close> are left out, and the
    posterior sample of \<^verbatim>\<open>BetaAgent.observe\<close> is a parameter.
\<close>

datatype error = IndexError | ValueError | ZeroDivisionError | NotFinite

section \<open>numpy helpers\<close>

text \<open>
  \<^verbatim>\<open>np.argmax(a)\<close>: the index of the first occurrence of the maximum; \<^verbatim>\<open>ValueError\<close>
  on an empty array. \<open>argmax_from\<close> is the scan: \<open>b\<close> is the best index so far, \<open>v\<close>
  its value and \<open>i\<close> the index of the next cell.
\<close>

fun argmax_from :: "nat \<Rightarrow> real \<Rightarrow> nat \<Rightarrow> real list \<Rightarrow> nat" where
  "argmax_from b v i [] = b"
| "argmax_from b v i (x # xs) =
     (if v < x then argmax_from i x (Suc i) xs else argmax_from b v (Suc i) xs)"

definition np_argmax :: "real list \<Rightarrow> error + nat" where
  "np_argmax a = (case a of [] \<Rightarrow> Inl ValueError | x # xs \<Rightarrow> Inr (argmax_from 0 x 1 xs))"

text \<open>
  numpy broadcasting of a row of length \<open>length gs\<close> against a row of length \<open>m\<close>, where the
  result must have length \<open>m\<close> (it is added in place to a view of that length): equal lengths
  pair cell by cell, a single cell is repeated, anything else is a \<^verbatim>\<open>ValueError\<close>.
\<close>

definition np_broadcast_to :: "nat \<Rightarrow> 'x list \<Rightarrow> error + 'x list" where
  "np_broadcast_to m gs =
     (if length gs = m then Inr gs
      else if length gs = 1 then Inr (replicate m (hd gs))
      else Inl ValueError)"

text \<open>
  A binary operation on two one-dimensional arrays, with numpy's broadcasting: equal
  lengths pair cell by cell, an array of one cell is repeated along the other, anything
  else is a \<^verbatim>\<open>ValueError\<close>.
\<close>

definition np_binop :: "('x \<Rightarrow> 'y \<Rightarrow> 'z) \<Rightarrow> 'x list \<Rightarrow> 'y list \<Rightarrow> error + 'z list" where
  "np_binop f xs ys =
     (if length xs = length ys then Inr (map2 f xs ys)
      else if length xs = 1 then Inr (map (f (hd xs)) ys)
      else if length ys = 1 then Inr (map (\<lambda>x. f x (hd ys)) xs)
      else Inl ValueError)"

section \<open>float64\<close>

text \<open>
  A float64 is a real of the form \<open>m * 2 ^ e\<close> with \<open>\<bar>m\<bar> < 2 ^ 53\<close> and
  \<open>- 1074 \<le> e \<le> 971\<close>. Every arithmetic operation on floats returns the exact result
  rounded to the nearest such number, a tie going to the even \<open>m\<close>.

  \<open>round_even\<close> is rounding to the nearest integer, ties to even.
\<close>

definition round_even :: "real \<Rightarrow> int" where
  "round_even x =
     (let f = \<lfloor>x\<rfloor>; d = x - of_int f
      in if d < 1 / 2 then f
         else if 1 / 2 < d then f + 1
         else if even f then f else f + 1)"

text \<open>The exponent of the unit in the last place of the float64 nearest to \<open>x \<noteq> 0\<close>: 52
  below the exponent of \<open>x\<close>, and not below that of the subnormal numbers.\<close>

definition f64_ulp_exponent :: "real \<Rightarrow> int" where
  "f64_ulp_exponent x = max (\<lfloor>log 2 \<bar>x\<bar>\<rfloor> - 52) (- 1074)"

text \<open>Rounding to 53 significant bits, the exponent unbounded above.\<close>

definition fl :: "real \<Rightarrow> real" where
  "fl x =
     (if x = 0 then 0
      else of_int (round_even (x / power_int 2 (f64_ulp_exponent x)))
             * power_int 2 (f64_ulp_exponent x))"

text \<open>The greatest finite float64, and the result of an operation whose exact value is
  \<open>x\<close>: the rounded value, or \<open>inf\<close> when that exceeds the greatest finite float64
  (\<open>NotFinite\<close>, see the conventions).\<close>

definition f64_max :: real where
  "f64_max = (2 ^ 53 - 1) * 2 ^ 971"

definition f64 :: "real \<Rightarrow> error + real" where
  "f64 x = (if \<bar>fl x\<bar> \<le> f64_max then Inr (fl x) else Inl NotFinite)"

text \<open>The reals that are float64 values.\<close>

definition is_f64 :: "real \<Rightarrow> bool" where
  "is_f64 x = (f64 x = Inr x)"

section \<open>Agent\<close>

record 'p agent =
  policy :: 'p
  k :: nat
  prior :: real
  gamma :: "real option"
  value_estimates :: "real list"
  action_attempts :: "nat list"
  t :: nat
  last_action :: "nat option"

text \<open>\<^verbatim>\<open>Agent.__init__(bandit, policy, prior=0, gamma=None)\<close>, with \<open>bandit_k\<close> for \<^verbatim>\<open>bandit.k\<close>.\<close>

definition Agent_init :: "nat \<Rightarrow> 'p \<Rightarrow> real \<Rightarrow> real option \<Rightarrow> 'p agent" where
  "Agent_init bandit_k pol pr gm =
     \<lparr> policy = pol, k = bandit_k, prior = pr, gamma = gm,
       value_estimates = map (\<lambda>one. pr * one) (replicate bandit_k 1),
       action_attempts = replicate bandit_k 0,
       t = 0, last_action = None \<rparr>"

text \<open>\<^verbatim>\<open>Agent.reset\<close>: the slice assignments \<^verbatim>\<open>[:] = v\<close> overwrite every cell and keep the length.\<close>

definition Agent_reset :: "('p, 'a) agent_scheme \<Rightarrow> ('p, 'a) agent_scheme" where
  "Agent_reset self =
     self\<lparr> value_estimates := map (\<lambda>_. prior self) (value_estimates self),
           action_attempts := map (\<lambda>_. 0) (action_attempts self),
           last_action := None,
           t := 0 \<rparr>"

text \<open>
  \<^verbatim>\<open>Agent.choose\<close>. The policy object's \<^verbatim>\<open>choose\<close> method is the parameter \<open>pchoose\<close>: it
  reads the agent, may raise, may change the policy object, and returns the action (which
  for \<^verbatim>\<open>FrequentistPolicy\<close> can be \<^verbatim>\<open>None\<close>).
\<close>

definition Agent_choose ::
  "('p \<Rightarrow> ('p, 'a) agent_scheme \<Rightarrow> error + nat option \<times> 'p) \<Rightarrow>
   ('p, 'a) agent_scheme \<Rightarrow> error + nat option \<times> ('p, 'a) agent_scheme" where
  "Agent_choose pchoose self =
     (case pchoose (policy self) self of
        Inl e \<Rightarrow> Inl e
      | Inr (action, pol) \<Rightarrow> Inr (action, self\<lparr> policy := pol, last_action := action \<rparr>))"

text \<open>
  \<^verbatim>\<open>Agent.observe\<close>. With an integer \<^verbatim>\<open>last_action\<close> the three subscripts address one cell
  and raise \<^verbatim>\<open>IndexError\<close> out of range. With \<^verbatim>\<open>last_action = None\<close> nothing raises: to
  numpy the subscript \<^verbatim>\<open>None\<close> is \<^verbatim>\<open>np.newaxis\<close>, \<^verbatim>\<open>a[None]\<close> is a view of the whole array
  of shape \<open>(1, k)\<close>, and each statement acts on every cell.
\<close>

definition Agent_observe :: "real \<Rightarrow> ('p, 'a) agent_scheme \<Rightarrow> error + ('p, 'a) agent_scheme" where
  "Agent_observe reward self =
     (case last_action self of
        Some a \<Rightarrow>
          if a < length (action_attempts self) then
            let attempts = (action_attempts self)[a := action_attempts self ! a + 1];
                g = (case gamma self of None \<Rightarrow> 1 / real (attempts ! a) | Some gm \<Rightarrow> gm)
            in if a < length (value_estimates self) then
                 let q = value_estimates self ! a
                 in Inr (self\<lparr> action_attempts := attempts,
                                value_estimates := (value_estimates self)[a := q + g * (reward - q)],
                                t := t self + 1 \<rparr>)
               else Inl IndexError
          else Inl IndexError
      | None \<Rightarrow>
          let attempts = map (\<lambda>m. m + 1) (action_attempts self);
              q = value_estimates self
          in (case gamma self of
                Some gm \<Rightarrow>
                  Inr (self\<lparr> action_attempts := attempts,
                             value_estimates := map (\<lambda>x. x + gm * (reward - x)) q,
                             t := t self + 1 \<rparr>)
              | None \<Rightarrow>
                  (case np_broadcast_to (length q) (map (\<lambda>m. 1 / real m) attempts) of
                     Inl e \<Rightarrow> Inl e
                   | Inr g \<Rightarrow>
                       Inr (self\<lparr> action_attempts := attempts,
                                  value_estimates := map2 (\<lambda>gi x. x + gi * (reward - x)) g q,
                                  t := t self + 1 \<rparr>))))"

text \<open>
  \<^verbatim>\<open>Agent.observe\<close> in float64. \<open>f64_step g reward q\<close> is \<^verbatim>\<open>q + g * (reward - q)\<close> as the
  source evaluates it: the difference, the product and the sum are each rounded.
\<close>

definition f64_step :: "real \<Rightarrow> real \<Rightarrow> real \<Rightarrow> error + real" where
  "f64_step g reward q =
     (case f64 (reward - q) of
        Inl e \<Rightarrow> Inl e
      | Inr d \<Rightarrow>
          (case f64 (g * d) of
             Inl e \<Rightarrow> Inl e
           | Inr p \<Rightarrow> f64 (q + p)))"

text \<open>The cells of an array computed one by one: all of them, unless one is not finite.\<close>

fun all_results :: "(error + 'x) list \<Rightarrow> error + 'x list" where
  "all_results [] = Inr []"
| "all_results (Inl e # rs) = Inl e"
| "all_results (Inr x # rs) = (case all_results rs of Inl e \<Rightarrow> Inl e | Inr xs \<Rightarrow> Inr (x # xs))"

text \<open>The method as in \<open>Agent_observe\<close>, with \<^verbatim>\<open>1 / self.action_attempts[...]\<close> and the update
  of the estimate in float64.\<close>

definition Agent_observe_f64 :: "real \<Rightarrow> ('p, 'a) agent_scheme \<Rightarrow> error + ('p, 'a) agent_scheme" where
  "Agent_observe_f64 reward self =
     (case last_action self of
        Some a \<Rightarrow>
          if a < length (action_attempts self) then
            let attempts = (action_attempts self)[a := action_attempts self ! a + 1]
            in (case (case gamma self of
                        None \<Rightarrow> f64 (1 / real (attempts ! a))
                      | Some gm \<Rightarrow> Inr gm) of
                  Inl e \<Rightarrow> Inl e
                | Inr g \<Rightarrow>
                    if a < length (value_estimates self) then
                      (case f64_step g reward (value_estimates self ! a) of
                         Inl e \<Rightarrow> Inl e
                       | Inr v \<Rightarrow>
                           Inr (self\<lparr> action_attempts := attempts,
                                      value_estimates := (value_estimates self)[a := v],
                                      t := t self + 1 \<rparr>))
                    else Inl IndexError)
          else Inl IndexError
      | None \<Rightarrow>
          let attempts = map (\<lambda>m. m + 1) (action_attempts self);
              q = value_estimates self
          in (case (case gamma self of
                      Some gm \<Rightarrow> Inr (replicate (length q) gm)
                    | None \<Rightarrow>
                        (case all_results (map (\<lambda>m. f64 (1 / real m)) attempts) of
                           Inl e \<Rightarrow> Inl e
                         | Inr g \<Rightarrow> np_broadcast_to (length q) g)) of
                Inl e \<Rightarrow> Inl e
              | Inr g \<Rightarrow>
                  (case all_results (map2 (\<lambda>gi x. f64_step gi reward x) g q) of
                     Inl e \<Rightarrow> Inl e
                   | Inr values \<Rightarrow>
                       Inr (self\<lparr> action_attempts := attempts,
                                  value_estimates := values,
                                  t := t self + 1 \<rparr>))))"

text \<open>
  Modelled from the spec: the driver loop (\<^verbatim>\<open>environment.py\<close> is not part of the sources).
  Per step it calls \<^verbatim>\<open>agent.choose()\<close>, obtains a reward for the action, and passes it to
  \<^verbatim>\<open>agent.observe(reward)\<close>. The rewards are given as a list; the result holds the actions
  chosen and the final agent. The two methods that the agent's class and its policy's
  class select are the parameters \<open>pchoose\<close> and \<open>observe\<close>.
\<close>

fun run ::
  "('p \<Rightarrow> ('p, 'a) agent_scheme \<Rightarrow> error + nat option \<times> 'p) \<Rightarrow>
   (real \<Rightarrow> ('p, 'a) agent_scheme \<Rightarrow> error + ('p, 'a) agent_scheme) \<Rightarrow>
   real list \<Rightarrow> ('p, 'a) agent_scheme \<Rightarrow> error + nat option list \<times> ('p, 'a) agent_scheme" where
  "run pchoose observe [] self = Inr ([], self)"
| "run pchoose observe (reward # rewards) self =
     (case Agent_choose pchoose self of
        Inl e \<Rightarrow> Inl e
      | Inr (action, self1) \<Rightarrow>
          (case observe reward self1 of
             Inl e \<Rightarrow> Inl e
           | Inr self2 \<Rightarrow>
               (case run pchoose observe rewards self2 of
                  Inl e \<Rightarrow> Inl e
                | Inr (actions, self3) \<Rightarrow> Inr (action # actions, self3))))"

section \<open>Policies\<close>

text \<open>\<^verbatim>\<open>Policy.choose\<close>, the base class: always arm 0.\<close>

definition Policy_choose :: "'p \<Rightarrow> ('p, 'a) agent_scheme \<Rightarrow> error + nat option \<times> 'p" where
  "Policy_choose self agent = Inr (Some 0, self)"

subsection \<open>EpsilonGreedyPolicy and UCBPolicy: construction\<close>

record epsilon_greedy_policy =
  epsilon :: real

record ucb_policy =
  ucb_c :: real

text \<open>
  \<^verbatim>\<open>EpsilonGreedyPolicy.__init__(epsilon)\<close> and \<^verbatim>\<open>UCBPolicy.__init__(c)\<close>: one assignment
  each. The result type has the error summand so that a rejected configuration could be
  expressed; the source has no statement that raises.
\<close>

definition EpsilonGreedyPolicy_init :: "real \<Rightarrow> error + epsilon_greedy_policy" where
  "EpsilonGreedyPolicy_init eps = Inr \<lparr> epsilon = eps \<rparr>"

definition UCBPolicy_init :: "real \<Rightarrow> error + ucb_policy" where
  "UCBPolicy_init c = Inr \<lparr> ucb_c = c \<rparr>"

subsection \<open>UCBPolicy: the exploration bonus\<close>

text \<open>
  A float64 cell that may hold a special value. \<open>Fin x\<close> is an ordinary number (exact),
  \<open>PInf\<close> and \<open>NInf\<close> are the infinities and \<open>NaN\<close> is not-a-number.
\<close>

datatype npfloat = Fin real | PInf | NInf | NaN

text \<open>
  \<^verbatim>\<open>x / a\<close> for a float \<open>x\<close> and a cell \<open>a\<close> of the attempts array: numpy does not raise on
  a zero divisor, \<open>x / 0\<close> is \<open>inf\<close> with the sign of \<open>x\<close>, and \<open>0 / 0\<close> is \<open>nan\<close>.
\<close>

definition np_divide :: "real \<Rightarrow> nat \<Rightarrow> npfloat" where
  "np_divide x a =
     (if a \<noteq> 0 then Fin (x / real a)
      else if 0 < x then PInf
      else if x < 0 then NInf
      else NaN)"

fun np_isnan :: "npfloat \<Rightarrow> bool" where
  "np_isnan NaN = True"
| "np_isnan _ = False"

text \<open>
  \<^verbatim>\<open>np.power(x, y)\<close> for a finite exponent \<open>y\<close>, after C's \<open>pow\<close>: anything to the power 0
  is 1; \<open>nan\<close> stays \<open>nan\<close>; \<open>inf\<close> stays \<open>inf\<close> for a positive exponent and becomes 0
  for a negative one; a negative base with a fractional exponent is \<open>nan\<close>.
\<close>

fun np_power :: "npfloat \<Rightarrow> real \<Rightarrow> npfloat" where
  "np_power NaN y = (if y = 0 then Fin 1 else NaN)"
| "np_power PInf y = (if y = 0 then Fin 1 else if 0 < y then PInf else Fin 0)"
| "np_power NInf y =
     (if y = 0 then Fin 1
      else if y < 0 then Fin 0
      else if y = of_int \<lfloor>y\<rfloor> \<and> odd \<lfloor>y\<rfloor> then NInf
      else PInf)"
| "np_power (Fin x) y =
     (if y = 0 then Fin 1
      else if 0 < x then Fin (x powr y)
      else if x = 0 then (if 0 < y then Fin 0 else PInf)
      else if y = of_int \<lfloor>y\<rfloor> then Fin (power_int x \<lfloor>y\<rfloor>)
      else NaN)"

fun np_add :: "real \<Rightarrow> npfloat \<Rightarrow> npfloat" where
  "np_add v (Fin x) = Fin (v + x)"
| "np_add v PInf = PInf"
| "np_add v NInf = NInf"
| "np_add v NaN = NaN"

text \<open>
  The first three statements of \<^verbatim>\<open>UCBPolicy.choose\<close>: the bonus of every arm.
  \<^verbatim>\<open>1 / self.c\<close> is a division of Python numbers and raises \<^verbatim>\<open>ZeroDivisionError\<close> for
  \<open>c = 0\<close>.
\<close>

definition UCBPolicy_exploration :: "ucb_policy \<Rightarrow> ('p, 'a) agent_scheme \<Rightarrow> error + npfloat list" where
  "UCBPolicy_exploration self agent =
     (let exploration = map (np_divide (ln (real (t agent + 1)))) (action_attempts agent);
          exploration = map (\<lambda>x. if np_isnan x then Fin 0 else x) exploration
      in if ucb_c self = 0 then Inl ZeroDivisionError
         else Inr (map (\<lambda>x. np_power x (1 / ucb_c self)) exploration))"

text \<open>
  The fourth statement, \<^verbatim>\<open>q = agent.value_estimates + exploration\<close>. The choice among the
  maxima of \<open>q\<close> that follows draws a random number and is not modelled.
\<close>

definition UCBPolicy_q :: "ucb_policy \<Rightarrow> ('p, 'a) agent_scheme \<Rightarrow> error + npfloat list" where
  "UCBPolicy_q self agent =
     (case UCBPolicy_exploration self agent of
        Inl e \<Rightarrow> Inl e
      | Inr exploration \<Rightarrow> np_binop np_add (value_estimates agent) exploration)"

subsection \<open>FrequentistPolicy\<close>

record frequentist_policy =
  fp_N :: int
  fp_n :: int
  fp_last_choice :: "nat option"
  fp_optimal_choice :: "nat option"

definition FrequentistPolicy_init :: "int \<Rightarrow> frequentist_policy" where
  "FrequentistPolicy_init n =
     \<lparr> fp_N = n, fp_n = 0, fp_last_choice = None, fp_optimal_choice = None \<rparr>"

text \<open>
  \<^verbatim>\<open>FrequentistPolicy.choose\<close>. \<^verbatim>\<open>max(agent.value_estimates.shape)\<close> is the length of the
  one-dimensional array. The only assignment to a field is the one to
  \<^verbatim>\<open>_optimal_choice\<close> in the second branch: no branch assigns \<^verbatim>\<open>n\<close> or \<^verbatim>\<open>_last_choice\<close>.
\<close>

definition FrequentistPolicy_choose ::
  "frequentist_policy \<Rightarrow> ('p, 'a) agent_scheme \<Rightarrow> error + nat option \<times> frequentist_policy" where
  "FrequentistPolicy_choose self agent =
     (if fp_n self < fp_N self then
        (case fp_last_choice self of
           None \<Rightarrow> Inr (Some 0, self)
         | Some lc \<Rightarrow>
             Inr (Some (if lc \<noteq> length (value_estimates agent) then lc + 1 else 0), self))
      else if fp_n self = fp_N self then
        (case np_argmax (value_estimates agent) of
           Inl e \<Rightarrow> Inl e
         | Inr a \<Rightarrow> Inr (Some a, self\<lparr> fp_optimal_choice := Some a \<rparr>))
      else Inr (fp_optimal_choice self, self))"

text \<open>Successive calls of \<^verbatim>\<open>choose\<close> on one policy object, the agent changing between them
  as the list says: the choices, and the policy object after the last call.\<close>

fun FrequentistPolicy_calls ::
  "frequentist_policy \<Rightarrow> ('p, 'a) agent_scheme list \<Rightarrow> error + nat option list \<times> frequentist_policy" where
  "FrequentistPolicy_calls self [] = Inr ([], self)"
| "FrequentistPolicy_calls self (agent # agents) =
     (case FrequentistPolicy_choose self agent of
        Inl e \<Rightarrow> Inl e
      | Inr (action, self1) \<Rightarrow>
          (case FrequentistPolicy_calls self1 agents of
             Inl e \<Rightarrow> Inl e
           | Inr (actions, self2) \<Rightarrow> Inr (action # actions, self2)))"

section \<open>GradientAgent\<close>

record 'p gradient_agent = "'p agent" +
  alpha :: real
  baseline :: bool
  average_reward :: real

text \<open>\<^verbatim>\<open>GradientAgent.__init__(bandit, policy, prior=0, alpha=0.1, baseline=True)\<close>: the base
  constructor with \<^verbatim>\<open>gamma\<close> left at \<^verbatim>\<open>None\<close>.\<close>

definition GradientAgent_init :: "nat \<Rightarrow> 'p \<Rightarrow> real \<Rightarrow> real \<Rightarrow> bool \<Rightarrow> 'p gradient_agent" where
  "GradientAgent_init bandit_k pol pr al bl =
     agent.extend (Agent_init bandit_k pol pr None)
       (gradient_agent.fields al bl 0)"

text \<open>\<^verbatim>\<open>np.exp(a) / np.sum(np.exp(a))\<close>.\<close>

definition softmax :: "real list \<Rightarrow> real list" where
  "softmax a = map (\<lambda>x. exp x / sum_list (map exp a)) a"

text \<open>
  \<^verbatim>\<open>GradientAgent.observe\<close>. With an integer \<^verbatim>\<open>last_action\<close>, \<^verbatim>\<open>ht\<close> is a number: the
  preference of the chosen arm is computed apart, the whole array is lowered by
  \<open>alpha * (reward - average_reward) * pi\<close>, and the chosen cell is overwritten by \<^verbatim>\<open>ht\<close>.
  With \<^verbatim>\<open>last_action = None\<close>, \<^verbatim>\<open>ht\<close> is a view of the whole array: \<^verbatim>\<open>ht += ...\<close> raises
  every cell in place, the array is then lowered as before, and the final assignment
  writes the array onto itself. The sum of the attempts, by which the baseline step
  divides, is at least 1 after the increment of a cell; it is 0 only for an array without
  cells.
\<close>

definition GradientAgent_observe ::
  "real \<Rightarrow> ('p, 'a) gradient_agent_scheme \<Rightarrow> error + ('p, 'a) gradient_agent_scheme" where
  "GradientAgent_observe reward self =
     (case last_action self of
        Some a \<Rightarrow>
          if a < length (action_attempts self) then
            let attempts = (action_attempts self)[a := action_attempts self ! a + 1];
                avg = (if baseline self
                       then average_reward self
                            + 1 / real (sum_list attempts) * (reward - average_reward self)
                       else average_reward self);
                pi = softmax (value_estimates self)
            in if a < length (value_estimates self) then
                 let ht = value_estimates self ! a
                            + alpha self * (reward - avg) * (1 - pi ! a);
                     values = map2 (\<lambda>v p. v - alpha self * (reward - avg) * p)
                                (value_estimates self) pi
                 in Inr (self\<lparr> action_attempts := attempts,
                                average_reward := avg,
                                value_estimates := values[a := ht],
                                t := t self + 1 \<rparr>)
               else Inl IndexError
          else Inl IndexError
      | None \<Rightarrow>
          let attempts = map (\<lambda>m. m + 1) (action_attempts self)
          in if baseline self \<and> sum_list attempts = 0 then Inl NotFinite
             else
               let avg = (if baseline self
                          then average_reward self
                               + 1 / real (sum_list attempts) * (reward - average_reward self)
                          else average_reward self);
                   pi = softmax (value_estimates self);
                   raised = map2 (\<lambda>v p. v + alpha self * (reward - avg) * (1 - p))
                              (value_estimates self) pi;
                   values = map2 (\<lambda>v p. v - alpha self * (reward - avg) * p) raised pi
               in Inr (self\<lparr> action_attempts := attempts,
                              average_reward := avg,
                              value_estimates := values,
                              t := t self + 1 \<rparr>))"

definition GradientAgent_reset :: "('p, 'a) gradient_agent_scheme \<Rightarrow> ('p, 'a) gradient_agent_scheme" where
  "GradientAgent_reset self = (Agent_reset self)\<lparr> average_reward := 0 \<rparr>"

section \<open>BetaAgent\<close>

text \<open>
  The posterior parameters \<^verbatim>\<open>self._prior.distribution.alpha\<close> and \<^verbatim>\<open>.beta\<close> (the
  properties \<^verbatim>\<open>alpha\<close> and \<^verbatim>\<open>beta\<close>) are the fields \<open>prior_alpha\<close> and \<open>prior_beta\<close>;
  \<^verbatim>\<open>n\<close> is \<open>ba_n\<close>. The model object of the probabilistic-programming library holds
  nothing else that the methods read.
\<close>

record 'p beta_agent = "'p agent" +
  ba_n :: real
  ts :: bool
  prior_alpha :: "real list"
  prior_beta :: "real list"

text \<open>\<^verbatim>\<open>BetaAgent.__init__(bandit, policy, ts=True)\<close>, with \<open>bandit_n\<close> for \<^verbatim>\<open>bandit.n\<close>: the
  base constructor with the default \<^verbatim>\<open>prior=0\<close> and \<^verbatim>\<open>gamma=None\<close>, then
  \<^verbatim>\<open>_value_estimates = np.zeros(k)\<close>.\<close>

definition BetaAgent_init :: "nat \<Rightarrow> real \<Rightarrow> 'p \<Rightarrow> bool \<Rightarrow> 'p beta_agent" where
  "BetaAgent_init bandit_k bandit_n pol thompson =
     agent.extend ((Agent_init bandit_k pol 0 None)\<lparr> value_estimates := replicate bandit_k 0 \<rparr>)
       (beta_agent.fields bandit_n thompson (replicate bandit_k 1) (replicate bandit_k 1))"

text \<open>The posterior means \<^verbatim>\<open>self.alpha / (self.alpha + self.beta)\<close>.\<close>

definition posterior_mean :: "real list \<Rightarrow> real list \<Rightarrow> error + real list" where
  "posterior_mean al be =
     (case np_binop (+) al be of
        Inl e \<Rightarrow> Inl e
      | Inr s \<Rightarrow> if 0 \<in> set s then Inl NotFinite else np_binop (/) al s)"

text \<open>
  \<^verbatim>\<open>BetaAgent.observe\<close>. The draw \<^verbatim>\<open>self._prior.random()\<close> of Thompson sampling is the
  parameter \<open>random\<close>, a function of the two parameter arrays. As in \<^verbatim>\<open>Agent.observe\<close>,
  the subscript \<^verbatim>\<open>None\<close> addresses every cell.
\<close>

definition BetaAgent_observe ::
  "(real list \<Rightarrow> real list \<Rightarrow> real list) \<Rightarrow> real \<Rightarrow>
   ('p, 'a) beta_agent_scheme \<Rightarrow> error + ('p, 'a) beta_agent_scheme" where
  "BetaAgent_observe random reward self =
     (case last_action self of
        Some a \<Rightarrow>
          if a < length (action_attempts self) then
            let attempts = (action_attempts self)[a := action_attempts self ! a + 1]
            in if a < length (prior_alpha self) then
                 let al = (prior_alpha self)[a := prior_alpha self ! a + reward]
                 in if a < length (prior_beta self) then
                      let be = (prior_beta self)[a := prior_beta self ! a + (ba_n self - reward)]
                      in (case (if ts self then Inr (random al be) else posterior_mean al be) of
                            Inl e \<Rightarrow> Inl e
                          | Inr values \<Rightarrow>
                              Inr (self\<lparr> action_attempts := attempts,
                                         prior_alpha := al,
                                         prior_beta := be,
                                         value_estimates := values,
                                         t := t self + 1 \<rparr>))
                    else Inl IndexError
               else Inl IndexError
          else Inl IndexError
      | None \<Rightarrow>
          let attempts = map (\<lambda>m. m + 1) (action_attempts self);
              al = map (\<lambda>x. x + reward) (prior_alpha self);
              be = map (\<lambda>y. y + (ba_n self - reward)) (prior_beta self)
          in (case (if ts self then Inr (random al be) else posterior_mean al be) of
                Inl e \<Rightarrow> Inl e
              | Inr values \<Rightarrow>
                  Inr (self\<lparr> action_attempts := attempts,
                             prior_alpha := al,
                             prior_beta := be,
                             value_estimates := values,
                             t := t self + 1 \<rparr>)))"

definition BetaAgent_reset :: "('p, 'a) beta_agent_scheme \<Rightarrow> ('p, 'a) beta_agent_scheme" where
  "BetaAgent_reset self =
     (Agent_reset self)\<lparr> prior_alpha := replicate (k self) 1,
                         prior_beta := replicate (k self) 1 \<rparr>"

section \<open>FrequentistAgent\<close>

record 'p frequentist_agent = "'p agent" +
  fa_n :: int
  num_arm :: nat
  fa_last_choice :: nat
  fa_optimal_choice :: "nat option"

text \<open>\<^verbatim>\<open>FrequentistAgent.__init__(bandit, policy)\<close>; \<^verbatim>\<open>max(self.value_estimates.shape)\<close> is the
  length of the array.\<close>

definition FrequentistAgent_init :: "nat \<Rightarrow> 'p \<Rightarrow> 'p frequentist_agent" where
  "FrequentistAgent_init bandit_k pol =
     (let base = Agent_init bandit_k pol 0 None
      in agent.extend base
           (frequentist_agent.fields (- 1) (length (value_estimates base)) 0 None))"

definition rand_choice :: "('p, 'a) frequentist_agent_scheme \<Rightarrow> nat \<times> ('p, 'a) frequentist_agent_scheme" where
  "rand_choice self =
     (let self = self\<lparr> fa_n := fa_n self + 1 \<rparr>;
          self = (if 0 < fa_n self
                  then self\<lparr> fa_last_choice :=
                         (if fa_last_choice self \<noteq> num_arm self
                          then fa_last_choice self + 1 else 0) \<rparr>
                  else self)
      in (fa_last_choice self, self))"

text \<open>Successive calls of \<^verbatim>\<open>rand_choice\<close>: the values returned, and the agent after the last.\<close>

fun rand_choices :: "nat \<Rightarrow> ('p, 'a) frequentist_agent_scheme \<Rightarrow> nat list \<times> ('p, 'a) frequentist_agent_scheme" where
  "rand_choices 0 self = ([], self)"
| "rand_choices (Suc m) self =
     (let (c, self1) = rand_choice self;
          (cs, self2) = rand_choices m self1
      in (c # cs, self2))"

definition optimize :: "('p, 'a) frequentist_agent_scheme \<Rightarrow> error + ('p, 'a) frequentist_agent_scheme" where
  "optimize self =
     (case np_argmax (value_estimates self) of
        Inl e \<Rightarrow> Inl e
      | Inr a \<Rightarrow> Inr (self\<lparr> fa_optimal_choice := Some a \<rparr>))"

definition optimal_choice :: "('p, 'a) frequentist_agent_scheme \<Rightarrow> nat option" where
  "optimal_choice self = fa_optimal_choice self"

text \<open>\<^verbatim>\<open>FrequentistAgent.reset\<close>: three assignments, and no call of the base class's \<^verbatim>\<open>reset\<close>.\<close>

definition FrequentistAgent_reset ::
  "('p, 'a) frequentist_agent_scheme \<Rightarrow> ('p, 'a) frequentist_agent_scheme" where
  "FrequentistAgent_reset self =
     self\<lparr> fa_n := - 1, fa_last_choice := 0, fa_optimal_choice := None \<rparr>"

section \<open>Properties of the base agent\<close>

lemma Agent_observe_Some:
  assumes "last_action self = Some a"
    and "a < length (action_attempts self)"
    and "a < length (value_estimates self)"
  shows "Agent_observe reward self =
     Inr (self\<lparr> action_attempts := (action_attempts self)[a := action_attempts self ! a + 1],
               value_estimates := (value_estimates self)[a := value_estimates self ! a +
                  (case gamma self of None \<Rightarrow> 1 / real (action_attempts self ! a + 1) | Some gm \<Rightarrow> gm)
                    * (reward - value_estimates self ! a)],
               t := t self + 1 \<rparr>)"
  using assms by (cases "gamma self") (simp_all add: Agent_observe_def Let_def)

text \<open>
  C10. Frame property of \<^verbatim>\<open>Agent.observe\<close>: after a \<^verbatim>\<open>choose()\<close> that selected arm \<open>a\<close>
  (an index of both arrays), \<^verbatim>\<open>observe(reward)\<close> succeeds and changes only
  \<^verbatim>\<open>value_estimates[a]\<close>, \<^verbatim>\<open>action_attempts[a]\<close> and \<^verbatim>\<open>t\<close>: the cells of every other arm,
  the lengths of both arrays, \<^verbatim>\<open>k\<close>, \<^verbatim>\<open>prior\<close>, \<^verbatim>\<open>gamma\<close>, \<^verbatim>\<open>last_action\<close> and the policy
  are as before.
\<close>

theorem Agent_observe_frame:
  assumes "Agent_choose pchoose self0 = Inr (Some a, self)"
    and "a < length (action_attempts self)"
    and "a < length (value_estimates self)"
  shows "\<exists>self'. Agent_observe reward self = Inr self' \<and>
           (\<forall>i. i \<noteq> a \<longrightarrow> value_estimates self' ! i = value_estimates self ! i \<and>
                         action_attempts self' ! i = action_attempts self ! i) \<and>
           length (value_estimates self') = length (value_estimates self) \<and>
           length (action_attempts self') = length (action_attempts self) \<and>
           k self' = k self \<and> prior self' = prior self \<and> gamma self' = gamma self \<and>
           last_action self' = last_action self \<and> policy self' = policy self \<and>
           agent.more self' = agent.more self"
proof -
  from assms(1) have la: "last_action self = Some a"
    by (auto simp: Agent_choose_def split: sum.splits)
  show ?thesis
    unfolding Agent_observe_Some [OF la assms(2) assms(3)] by simp
qed

theorem Agent_observe_frame_witness:
  "Agent_choose Policy_choose (Agent_init 2 () 0 None) = Inr (Some 0, (Agent_init 2 () 0 None)\<lparr>last_action := Some 0\<rparr>) \<and>
   (\<exists>self'. Agent_observe 5 ((Agent_init 2 () 0 None)\<lparr>last_action := Some 0\<rparr>) = Inr self' \<and>
      value_estimates self' ! 1 = 0 \<and> action_attempts self' ! 1 = 0 \<and> k self' = 2)"
proof -
  let ?s = "(Agent_init 2 () 0 None)\<lparr>last_action := Some 0\<rparr>"
  have c: "Agent_choose Policy_choose (Agent_init 2 () 0 None) = Inr (Some 0, ?s)"
    by (simp add: Agent_choose_def Policy_choose_def Agent_init_def)
  have l1: "0 < length (action_attempts ?s)" by (simp add: Agent_init_def)
  have l2: "0 < length (value_estimates ?s)" by (simp add: Agent_init_def)
  from Agent_observe_frame [OF c l1 l2, of 5] obtain self' where
    o: "Agent_observe 5 ?s = Inr self'"
    and f: "\<forall>i. i \<noteq> 0 \<longrightarrow> value_estimates self' ! i = value_estimates ?s ! i \<and>
                         action_attempts self' ! i = action_attempts ?s ! i"
    and kk: "k self' = k ?s"
    by blast
  from f have "value_estimates self' ! 1 = value_estimates ?s ! 1 \<and>
               action_attempts self' ! 1 = action_attempts ?s ! 1" by simp
  then have "value_estimates self' ! 1 = 0 \<and> action_attempts self' ! 1 = 0"
    by (simp add: Agent_init_def numeral_2_eq_2)
  moreover from kk have "k self' = 2" by (simp add: Agent_init_def)
  ultimately show ?thesis using c o by blast
qed

text \<open>Evaluating the rounding: in the binade \<open>2 ^ e \<le> \<bar>x\<bar> < 2 ^ (e + 1)\<close> of a normal
  number the unit in the last place is \<open>2 ^ (e - 52)\<close>.\<close>

lemma floor_log2_eq:
  assumes "power_int 2 e \<le> \<bar>x\<bar>" and "\<bar>x\<bar> < power_int 2 (e + 1)"
  shows "\<lfloor>log 2 \<bar>x\<bar>\<rfloor> = e"
proof -
  have "0 < power_int (2::real) e" by simp
  with assms(1) have pos: "0 < \<bar>x\<bar>" by linarith
  have a: "2 powr real_of_int e = power_int (2::real) e"
    by (rule powr_real_of_int') simp_all
  have b: "2 powr real_of_int (e + 1) = power_int (2::real) (e + 1)"
    by (rule powr_real_of_int') simp_all
  have "2 powr real_of_int e \<le> \<bar>x\<bar> \<and> \<bar>x\<bar> < 2 powr real_of_int (e + 1)"
    unfolding a b using assms by simp
  with floor_log_eq_powr_iff [of "\<bar>x\<bar>" 2 e] pos show ?thesis by simp
qed

lemma fl_binade:
  assumes "power_int 2 e \<le> \<bar>x\<bar>" and "\<bar>x\<bar> < power_int 2 (e + 1)" and "- 1022 \<le> e"
  shows "fl x = of_int (round_even (x / power_int 2 (e - 52))) * power_int 2 (e - 52)"
proof -
  have "\<not> power_int (2::real) e \<le> 0" by (simp add: not_le)
  with assms(1) have "x \<noteq> 0" by auto
  moreover have "f64_ulp_exponent x = e - 52"
    using floor_log2_eq [OF assms(1,2)] assms(3) by (simp add: f64_ulp_exponent_def)
  ultimately show ?thesis by (simp add: fl_def)
qed

lemma f64_1: "f64 1 = Inr 1"
  using fl_binade [of 0 1] by (simp add: f64_def round_even_def f64_max_def)

lemma f64_step_exact:
  assumes "is_f64 r" and "is_f64 (r - q)"
  shows "f64_step 1 r q = Inr r"
  using assms by (simp add: f64_step_def is_f64_def)

lemma Agent_observe_f64_Some:
  assumes "gamma self = None" and "last_action self = Some a"
    and "a < length (action_attempts self)" and "a < length (value_estimates self)"
    and "action_attempts self ! a = 0"
  shows "Agent_observe_f64 r self =
     (case f64_step 1 r (value_estimates self ! a) of
        Inl e \<Rightarrow> Inl e
      | Inr v \<Rightarrow>
          Inr (self\<lparr> action_attempts := (action_attempts self)[a := 1],
                    value_estimates := (value_estimates self)[a := v],
                    t := t self + 1 \<rparr>))"
  using assms by (simp add: Agent_observe_f64_def Let_def f64_1 split: sum.split)

lemma Agent_observe_f64_Inr_D:
  assumes "Agent_observe_f64 reward self = Inr self'" and "last_action self = Some a"
  shows "a < length (action_attempts self) \<and> a < length (value_estimates self)"
  using assms by (auto simp: Agent_observe_f64_def Let_def split: if_splits sum.splits)

lemma run_fresh_arms_f64:
  assumes "run pchoose Agent_observe_f64 (replicate m r) self = Inr (map Some arms, self')"
    and "distinct arms"
    and "gamma self = None"
    and "length (value_estimates self) = K" and "length (action_attempts self) = K"
    and "\<forall>i\<in>set arms. i < K \<longrightarrow>
           action_attempts self ! i = 0 \<and> is_f64 (r - value_estimates self ! i)"
    and "is_f64 r"
  shows "length (value_estimates self') = K \<and> set arms \<subseteq> {..<K} \<and> length arms = m \<and>
         (\<forall>i\<in>set arms. value_estimates self' ! i = r) \<and>
         (\<forall>i<K. i \<notin> set arms \<longrightarrow> value_estimates self' ! i = value_estimates self ! i)"
  using assms
proof (induction m arbitrary: self arms)
  case 0
  then show ?case by simp
next
  case (Suc m)
  from Suc.prems(1) obtain action self1 self2 actions where
    ch: "Agent_choose pchoose self = Inr (action, self1)"
    and ob: "Agent_observe_f64 r self1 = Inr self2"
    and rn: "run pchoose Agent_observe_f64 (replicate m r) self2 = Inr (actions, self')"
    and ac: "map Some arms = action # actions"
    by (auto split: sum.splits prod.splits)
  from ac obtain a arms' where arms: "arms = a # arms'" and a: "action = Some a"
    and acts: "actions = map Some arms'"
    by (cases arms) auto
  from ch a have s1: "last_action self1 = Some a" "gamma self1 = gamma self"
    "value_estimates self1 = value_estimates self" "action_attempts self1 = action_attempts self"
    by (auto simp: Agent_choose_def split: sum.splits)
  from Agent_observe_f64_Inr_D [OF ob s1(1)] s1 Suc.prems(4,5) have aK: "a < K" by simp
  have fresh: "action_attempts self ! a = 0" "is_f64 (r - value_estimates self ! a)"
    using Suc.prems(6) arms aK by simp_all
  have st: "f64_step 1 r (value_estimates self1 ! a) = Inr r"
    using Suc.prems(7) fresh(2) s1 by (intro f64_step_exact) simp_all
  have "Agent_observe_f64 r self1 =
     (case f64_step 1 r (value_estimates self1 ! a) of
        Inl e \<Rightarrow> Inl e
      | Inr v \<Rightarrow>
          Inr (self1\<lparr> action_attempts := (action_attempts self1)[a := 1],
                    value_estimates := (value_estimates self1)[a := v],
                    t := t self1 + 1 \<rparr>))"
    using s1 aK Suc.prems(3,4,5) fresh by (intro Agent_observe_f64_Some) simp_all
  with ob st have s2: "self2 = self1\<lparr> action_attempts := (action_attempts self)[a := 1],
               value_estimates := (value_estimates self)[a := r],
               t := t self1 + 1 \<rparr>"
    using s1 by simp
  have d: "distinct arms'" and an: "a \<notin> set arms'" using Suc.prems(2) arms by simp_all
  have f2: "\<forall>i\<in>set arms'. i < K \<longrightarrow>
              action_attempts self2 ! i = 0 \<and> is_f64 (r - value_estimates self2 ! i)"
  proof (intro ballI impI)
    fix i assume i: "i \<in> set arms'" "i < K"
    with an have "i \<noteq> a" by auto
    then have "action_attempts self2 ! i = action_attempts self ! i"
      "value_estimates self2 ! i = value_estimates self ! i" by (simp_all add: s2)
    with Suc.prems(6) arms i
    show "action_attempts self2 ! i = 0 \<and> is_f64 (r - value_estimates self2 ! i)" by simp
  qed
  have g2: "gamma self2 = None" using s1 Suc.prems(3) by (simp add: s2)
  have l2: "length (value_estimates self2) = K" "length (action_attempts self2) = K"
    using Suc.prems(4,5) by (simp_all add: s2)
  from Suc.IH [OF rn [unfolded acts] d g2 l2 f2 Suc.prems(7)]
  have ih: "length (value_estimates self') = K" "set arms' \<subseteq> {..<K}" "length arms' = m"
    "\<forall>i\<in>set arms'. value_estimates self' ! i = r"
    "\<forall>i<K. i \<notin> set arms' \<longrightarrow> value_estimates self' ! i = value_estimates self2 ! i"
    by simp_all
  have va: "value_estimates self' ! a = r"
    using ih(5) aK an Suc.prems(4) by (simp add: s2)
  have rest: "\<forall>i<K. i \<notin> set arms \<longrightarrow> value_estimates self' ! i = value_estimates self ! i"
    using ih(5) arms by (auto simp: s2 nth_list_update)
  show ?case using ih(1,2,3,4) va rest aK arms by auto
qed

text \<open>
  C6, as the code has it. In sample-average mode (\<^verbatim>\<open>gamma\<close> unset) one observation of a
  reward \<open>r\<close> on an arm with no attempts so far and estimate \<open>q\<close> stores the float64 value
  of \<open>q + 1 * (r - q)\<close>. That value is \<open>r\<close> whenever \<open>r\<close> and \<open>r - q\<close> are float64 values, in
  particular for the default prior 0. Hence, from an agent constructed with a prior \<open>p\<close>
  for which \<open>r - p\<close> is a float64 value, \<open>k\<close> steps with reward \<open>r\<close> in which the policy
  picked \<open>k\<close> distinct arms leave every estimate equal to \<open>r\<close>.
\<close>

theorem Agent_observe_f64_fresh_arm:
  "(gamma self = None \<and> last_action self = Some a \<and>
    a < length (action_attempts self) \<and> a < length (value_estimates self) \<and>
    action_attempts self ! a = 0 \<and> f64_step 1 r (value_estimates self ! a) = Inr v \<longrightarrow>
      (\<exists>self'. Agent_observe_f64 r self = Inr self' \<and> value_estimates self' ! a = v)) \<and>
   (is_f64 r \<and> is_f64 (r - q) \<longrightarrow> f64_step 1 r q = Inr r) \<and>
   (run pchoose Agent_observe_f64 (replicate K r) (Agent_init K pol p None) = Inr (map Some arms, final) \<and>
    distinct arms \<and> is_f64 r \<and> is_f64 (r - p) \<longrightarrow>
      value_estimates final = replicate K r)"
proof (intro conjI impI)
  assume h: "gamma self = None \<and> last_action self = Some a \<and>
    a < length (action_attempts self) \<and> a < length (value_estimates self) \<and>
    action_attempts self ! a = 0 \<and> f64_step 1 r (value_estimates self ! a) = Inr v"
  then have "Agent_observe_f64 r self =
     (case f64_step 1 r (value_estimates self ! a) of
        Inl e \<Rightarrow> Inl e
      | Inr v \<Rightarrow>
          Inr (self\<lparr> action_attempts := (action_attempts self)[a := 1],
                    value_estimates := (value_estimates self)[a := v],
                    t := t self + 1 \<rparr>))"
    by (intro Agent_observe_f64_Some) simp_all
  with h show "\<exists>self'. Agent_observe_f64 r self = Inr self' \<and> value_estimates self' ! a = v"
    by simp
next
  assume "is_f64 r \<and> is_f64 (r - q)"
  then show "f64_step 1 r q = Inr r" by (simp add: f64_step_exact)
next
  let ?s = "Agent_init K pol p None"
  assume h: "run pchoose Agent_observe_f64 (replicate K r) ?s = Inr (map Some arms, final) \<and>
    distinct arms \<and> is_f64 r \<and> is_f64 (r - p)"
  have "length (value_estimates final) = K \<and> set arms \<subseteq> {..<K} \<and> length arms = K \<and>
         (\<forall>i\<in>set arms. value_estimates final ! i = r) \<and>
         (\<forall>i<K. i \<notin> set arms \<longrightarrow> value_estimates final ! i = value_estimates ?s ! i)"
    using h by (intro run_fresh_arms_f64 [where pchoose = pchoose]) (simp_all add: Agent_init_def)
  then have len: "length (value_estimates final) = K" and sub: "set arms \<subseteq> {..<K}"
    and la: "length arms = K" and v: "\<forall>i\<in>set arms. value_estimates final ! i = r"
    by simp_all
  from h la have "card (set arms) = K" by (simp add: distinct_card)
  with sub have "set arms = {..<K}" by (simp add: card_subset_eq)
  with v have "\<forall>i<K. value_estimates final ! i = r" by simp
  with len show "value_estimates final = replicate K r"
    by (simp add: list_eq_iff_nth_eq)
qed

theorem Agent_observe_f64_fresh_arm_witness:
  "gamma ((Agent_init 2 () 3 None)\<lparr> last_action := Some 0 \<rparr>) = None \<and>
   last_action ((Agent_init 2 () 3 None)\<lparr> last_action := Some 0 \<rparr>) = Some 0 \<and>
   0 < length (action_attempts ((Agent_init 2 () 3 None)\<lparr> last_action := Some 0 \<rparr>)) \<and>
   0 < length (value_estimates ((Agent_init 2 () 3 None)\<lparr> last_action := Some 0 \<rparr>)) \<and>
   action_attempts ((Agent_init 2 () 3 None)\<lparr> last_action := Some 0 \<rparr>) ! 0 = 0 \<and>
   value_estimates ((Agent_init 2 () 3 None)\<lparr> last_action := Some 0 \<rparr>) ! 0 = 3 \<and>
   is_f64 5 \<and> is_f64 (5 - 3) \<and> f64_step 1 5 3 = Inr 5 \<and>
   (\<exists>self'. Agent_observe_f64 5 ((Agent_init 2 () 3 None)\<lparr> last_action := Some 0 \<rparr>) = Inr self' \<and>
      value_estimates self' ! 0 = 5) \<and>
   run (\<lambda>pol agent. Inr (Some (t agent), pol)) Agent_observe_f64 (replicate 2 5)
       (Agent_init 2 () 3 None) =
     Inr (map Some [0, 1],
          \<lparr> policy = (), k = 2, prior = 3, gamma = None, value_estimates = [5, 5],
            action_attempts = [1, 1], t = 2, last_action = Some 1 \<rparr>) \<and>
   distinct [0::nat, 1] \<and>
   value_estimates \<lparr> policy = (), k = 2, prior = 3, gamma = None, value_estimates = [5, 5],
            action_attempts = [1, 1], t = 2, last_action = Some 1 \<rparr> = replicate 2 5"
proof -
  let ?s = "(Agent_init 2 () 3 None)\<lparr> last_action := Some 0 \<rparr>"
  let ?P = "\<lambda>pol agent. Inr (Some (t agent), pol) :: error + nat option \<times> unit"
  let ?F = "\<lparr> policy = (), k = 2, prior = 3, gamma = None, value_estimates = [5, 5],
            action_attempts = [1, 1], t = 2, last_action = Some 1 \<rparr>"
  have five: "f64 5 = Inr 5"
    using fl_binade [of 2 5] by (simp add: f64_def round_even_def f64_max_def)
  have two: "f64 2 = Inr 2"
    using fl_binade [of 1 2] by (simp add: f64_def round_even_def f64_max_def)
  have rep: "is_f64 5 \<and> is_f64 (5 - 3)" by (simp add: is_f64_def five two)
  note inst = Agent_observe_f64_fresh_arm
    [where self = ?s and a = 0 and r = 5 and v = 5 and q = 3 and pchoose = ?P and K = 2
       and pol = "()" and p = 3 and arms = "[0, 1]" and final = ?F]
  from inst rep have st: "f64_step 1 5 3 = Inr 5" by blast
  have pre: "gamma ?s = None \<and> last_action ?s = Some 0 \<and>
    0 < length (action_attempts ?s) \<and> 0 < length (value_estimates ?s) \<and>
    action_attempts ?s ! 0 = 0 \<and> value_estimates ?s ! 0 = 3"
    by (simp add: Agent_init_def numeral_nat)
  from inst pre st have one: "\<exists>self'. Agent_observe_f64 5 ?s = Inr self' \<and> value_estimates self' ! 0 = 5"
    by simp
  have rn: "run ?P Agent_observe_f64 (replicate 2 5) (Agent_init 2 () 3 None) = Inr (map Some [0, 1], ?F)"
    by (simp add: numeral_nat Agent_choose_def Agent_observe_f64_def Agent_init_def Let_def
        f64_1 st)
  have ds: "distinct [0::nat, 1]" by simp
  from inst rn ds rep have fin: "value_estimates ?F = replicate 2 5"
    by blast
  from pre rep st one rn ds fin show ?thesis by blast
qed

text \<open>Where \<open>r - q\<close> is not a float64 value the estimate need not be \<open>r\<close>: prior \<open>10 ^ 16\<close>
  and reward 1 store 0; prior 5 and the float64 nearest to \<open>0.1\<close> store
  \<open>0.09999999999999964...\<close>.\<close>

theorem Agent_observe_f64_fresh_arm_counterexample:
  "is_f64 10000000000000000 \<and> is_f64 1 \<and>
   gamma ((Agent_init 2 () 10000000000000000 None)\<lparr> last_action := Some 0 \<rparr>) = None \<and>
   action_attempts ((Agent_init 2 () 10000000000000000 None)\<lparr> last_action := Some 0 \<rparr>) ! 0 = 0 \<and>
   Agent_observe_f64 1 ((Agent_init 2 () 10000000000000000 None)\<lparr> last_action := Some 0 \<rparr>) =
     Inr ((Agent_init 2 () 10000000000000000 None)
            \<lparr> last_action := Some 0, action_attempts := [1, 0],
              value_estimates := [0, 10000000000000000], t := 1 \<rparr>) \<and>
   is_f64 5 \<and> is_f64 (3602879701896397 / 36028797018963968) \<and>
   Agent_observe_f64 (3602879701896397 / 36028797018963968)
       ((Agent_init 2 () 5 None)\<lparr> last_action := Some 0 \<rparr>) =
     Inr ((Agent_init 2 () 5 None)
            \<lparr> last_action := Some 0, action_attempts := [1, 0],
              value_estimates := [56294995342131 / 562949953421312, 5], t := 1 \<rparr>) \<and>
   (56294995342131 / 562949953421312 :: real) \<noteq> 3602879701896397 / 36028797018963968"
proof -
  have big: "f64 10000000000000000 = Inr 10000000000000000"
    using fl_binade [of 53 10000000000000000]
    by (simp add: f64_def round_even_def f64_max_def)
  have nbig: "f64 (- 10000000000000000) = Inr (- 10000000000000000)"
    using fl_binade [of 53 "- 10000000000000000"]
    by (simp add: f64_def round_even_def f64_max_def)
  have d1: "f64 (- 9999999999999999) = Inr (- 10000000000000000)"
    using fl_binade [of 53 "- 9999999999999999"]
    by (simp add: f64_def round_even_def f64_max_def)
  have z: "f64 0 = Inr 0" by (simp add: f64_def fl_def f64_max_def)
  have step1: "f64_step 1 1 10000000000000000 = Inr 0"
    by (simp add: f64_step_def d1 nbig z)
  have five: "f64 5 = Inr 5"
    using fl_binade [of 2 5] by (simp add: f64_def round_even_def f64_max_def)
  have tenth: "f64 (3602879701896397 / 36028797018963968) = Inr (3602879701896397 / 36028797018963968)"
    using fl_binade [of "- 4" "3602879701896397 / 36028797018963968"]
    by (simp add: f64_def round_even_def f64_max_def)
  have d2: "f64 (3602879701896397 / 36028797018963968 - 5) = Inr (- (2758454771764429 / 562949953421312))"
    using fl_binade [of 2 "3602879701896397 / 36028797018963968 - 5"]
    by (simp add: f64_def round_even_def f64_max_def)
  have d2': "f64 (- (2758454771764429 / 562949953421312)) = Inr (- (2758454771764429 / 562949953421312))"
    using fl_binade [of 2 "- (2758454771764429 / 562949953421312)"]
    by (simp add: f64_def round_even_def f64_max_def)
  have d3: "f64 (5 + - (2758454771764429 / 562949953421312)) = Inr (56294995342131 / 562949953421312)"
    using fl_binade [of "- 4" "5 + - (2758454771764429 / 562949953421312)"]
    by (simp add: f64_def round_even_def f64_max_def)
  have step2: "f64_step 1 (3602879701896397 / 36028797018963968) 5
                 = Inr (56294995342131 / 562949953421312)"
    unfolding f64_step_def d2 sum.case mult_1 d2' d3 ..
  have o1: "Agent_observe_f64 1 ((Agent_init 2 () 10000000000000000 None)\<lparr> last_action := Some 0 \<rparr>) =
     Inr ((Agent_init 2 () 10000000000000000 None)
            \<lparr> last_action := Some 0, action_attempts := [1, 0],
              value_estimates := [0, 10000000000000000], t := 1 \<rparr>)"
    by (subst Agent_observe_f64_Some [where a = 0])
       (simp_all add: Agent_init_def numeral_nat step1)
  have o2: "Agent_observe_f64 (3602879701896397 / 36028797018963968)
       ((Agent_init 2 () 5 None)\<lparr> last_action := Some 0 \<rparr>) =
     Inr ((Agent_init 2 () 5 None)
            \<lparr> last_action := Some 0, action_attempts := [1, 0],
              value_estimates := [56294995342131 / 562949953421312, 5], t := 1 \<rparr>)"
    by (subst Agent_observe_f64_Some [where a = 0])
       (simp_all add: Agent_init_def numeral_nat step2)
  have ne: "(56294995342131 / 562949953421312 :: real) \<noteq> 3602879701896397 / 36028797018963968"
    by simp
  have g: "gamma ((Agent_init 2 () 10000000000000000 None)\<lparr> last_action := Some 0 \<rparr>) = None"
    "action_attempts ((Agent_init 2 () 10000000000000000 None)\<lparr> last_action := Some 0 \<rparr>) ! 0 = 0"
    by (simp_all add: Agent_init_def)
  show ?thesis
    using big f64_1 five tenth o1 o2 ne g unfolding is_f64_def by blast
qed

text \<open>How \<^verbatim>\<open>Agent.observe\<close> acts when \<^verbatim>\<open>last_action\<close> is \<^verbatim>\<open>None\<close> and the arrays have one length.\<close>

lemma Agent_observe_None:
  assumes "last_action self = None"
    and "length (action_attempts self) = length (value_estimates self)"
  shows "Agent_observe reward self =
     Inr (self\<lparr> action_attempts := map (\<lambda>m. m + 1) (action_attempts self),
               value_estimates :=
                 (case gamma self of
                    None \<Rightarrow> map2 (\<lambda>gi x. x + gi * (reward - x))
                              (map (\<lambda>m. 1 / real m) (map (\<lambda>m. m + 1) (action_attempts self)))
                              (value_estimates self)
                  | Some gm \<Rightarrow> map (\<lambda>x. x + gm * (reward - x)) (value_estimates self)),
               t := t self + 1 \<rparr>)"
  using assms
  by (cases "gamma self") (simp_all add: Agent_observe_def np_broadcast_to_def Let_def)

lemma map2_replicate:
  "map2 f (replicate m x) (replicate m y) = replicate m (f x y)"
  by (induction m) simp_all

text \<open>
  C2, as the code has it. \<^verbatim>\<open>observe(reward)\<close> on a freshly constructed agent, and on a
  freshly reset one whose two arrays have one length, does not raise. With \<^verbatim>\<open>last_action\<close>
  undefined the subscript selects every cell: every arm's attempt count becomes 1, every
  arm's estimate becomes \<open>prior + g * (reward - prior)\<close>, with \<open>g = 1\<close> when \<^verbatim>\<open>gamma\<close> is unset
  and \<open>g = gamma\<close> otherwise, and \<^verbatim>\<open>t\<close> becomes 1.
\<close>

theorem Agent_observe_before_choose:
  "Agent_observe reward (Agent_init K pol pr gm) =
     Inr ((Agent_init K pol pr gm)
            \<lparr> action_attempts := replicate K 1,
              value_estimates :=
                replicate K (pr + (case gm of None \<Rightarrow> 1 | Some g \<Rightarrow> g) * (reward - pr)),
              t := 1 \<rparr>) \<and>
   (length (action_attempts self) = length (value_estimates self) \<longrightarrow>
      Agent_observe reward (Agent_reset self) =
        Inr ((Agent_reset self)
               \<lparr> action_attempts := replicate (length (action_attempts self)) 1,
                 value_estimates :=
                   replicate (length (value_estimates self))
                     (prior self
                        + (case gamma self of None \<Rightarrow> 1 | Some g \<Rightarrow> g) * (reward - prior self)),
                 t := 1 \<rparr>))"
proof (intro conjI impI)
  let ?s = "Agent_init K pol pr gm"
  have la: "last_action ?s = None" by (simp add: Agent_init_def)
  have len: "length (action_attempts ?s) = length (value_estimates ?s)"
    by (simp add: Agent_init_def)
  show "Agent_observe reward ?s =
     Inr (?s\<lparr> action_attempts := replicate K 1,
              value_estimates :=
                replicate K (pr + (case gm of None \<Rightarrow> 1 | Some g \<Rightarrow> g) * (reward - pr)),
              t := 1 \<rparr>)"
    unfolding Agent_observe_None [OF la len]
    by (cases gm) (simp_all add: Agent_init_def map2_replicate)
next
  assume eq: "length (action_attempts self) = length (value_estimates self)"
  let ?s = "Agent_reset self"
  have la: "last_action ?s = None" by (simp add: Agent_reset_def)
  have len: "length (action_attempts ?s) = length (value_estimates ?s)"
    using eq by (simp add: Agent_reset_def)
  show "Agent_observe reward ?s =
     Inr (?s\<lparr> action_attempts := replicate (length (action_attempts self)) 1,
              value_estimates :=
                replicate (length (value_estimates self))
                  (prior self
                     + (case gamma self of None \<Rightarrow> 1 | Some g \<Rightarrow> g) * (reward - prior self)),
              t := 1 \<rparr>)"
    unfolding Agent_observe_None [OF la len]
    using eq
    by (cases "gamma self")
      (simp_all add: Agent_reset_def comp_def map_replicate_const map2_replicate)
qed

theorem Agent_observe_before_choose_witness:
  "length (action_attempts (Agent_init 2 () 3 None)) = length (value_estimates (Agent_init 2 () 3 None)) \<and>
   Agent_observe 7 (Agent_reset (Agent_init 2 () 3 None)) =
     Inr ((Agent_reset (Agent_init 2 () 3 None))
            \<lparr> action_attempts := [1, 1], value_estimates := [7, 7], t := 1 \<rparr>)"
  using Agent_observe_before_choose [of 7 0 "()" 0 None "Agent_init 2 () 3 None"]
  by (simp add: Agent_init_def numeral_nat)

theorem Agent_observe_before_choose_counterexample:
  "last_action (Agent_init 2 () 0 None) = None \<and>
   Agent_observe 1 (Agent_init 2 () 0 None) =
     Inr ((Agent_init 2 () 0 None)
            \<lparr> action_attempts := [1, 1], value_estimates := [1, 1], t := 1 \<rparr>)"
  by (simp add: Agent_observe_def Agent_init_def np_broadcast_to_def numeral_nat Let_def)

section \<open>Properties of the gradient agent\<close>

lemma sum_list_exp_pos: "xs \<noteq> [] \<Longrightarrow> 0 < sum_list (map exp (xs :: real list))"
proof (induction xs)
  case Nil
  then show ?case by simp
next
  case (Cons x xs)
  have "0 \<le> sum_list (map exp xs)" by (rule sum_list_nonneg) auto
  moreover have "0 < exp x" by simp
  ultimately have "0 < exp x + sum_list (map exp xs)" by (simp add: add_pos_nonneg)
  then show ?case by simp
qed

lemma softmax_sum: "a \<noteq> [] \<Longrightarrow> sum_list (softmax a) = 1"
proof -
  assume ne: "a \<noteq> []"
  have "sum_list (softmax a) = sum_list (map (\<lambda>x. exp x * (1 / sum_list (map exp a))) a)"
    by (simp add: softmax_def)
  also have "\<dots> = sum_list (map exp a) * (1 / sum_list (map exp a))"
    by (simp only: sum_list_mult_const)
  also have "\<dots> = 1" using sum_list_exp_pos [OF ne] by simp
  finally show ?thesis .
qed

lemma sum_list_update_real:
  "a < length xs \<Longrightarrow> sum_list (xs[a := x]) = sum_list xs - xs ! a + (x::real)"
  by (induction xs arbitrary: a) (auto split: nat.splits)

lemma map2_same: "map2 f xs (map g xs) = map (\<lambda>x. f x (g x)) xs"
  by (induction xs) simp_all

lemma GradientAgent_observe_Some:
  assumes "last_action self = Some a"
    and "a < length (action_attempts self)"
    and "a < length (value_estimates self)"
    and "avg = (if baseline self
                then average_reward self
                     + 1 / real (sum_list ((action_attempts self)[a := action_attempts self ! a + 1]))
                       * (reward - average_reward self)
                else average_reward self)"
  shows "GradientAgent_observe reward self =
     Inr (self\<lparr> action_attempts := (action_attempts self)[a := action_attempts self ! a + 1],
               average_reward := avg,
               value_estimates :=
                 (map2 (\<lambda>v p. v - alpha self * (reward - avg) * p)
                    (value_estimates self) (softmax (value_estimates self)))
                 [a := value_estimates self ! a
                         + alpha self * (reward - avg) * (1 - softmax (value_estimates self) ! a)],
               t := t self + 1 \<rparr>)"
  using assms by (simp add: GradientAgent_observe_def Let_def)

text \<open>
  C7. For a \<^verbatim>\<open>GradientAgent\<close> whose last action is an arm \<open>a\<close> (an index of both arrays),
  \<^verbatim>\<open>observe(reward)\<close> succeeds. With \<open>bl\<close> the baseline of the step (\<^verbatim>\<open>average_reward\<close>
  moved by \<open>(reward - average_reward) / sum(action_attempts)\<close>, the attempt of \<open>a\<close> already
  counted, when the baseline is enabled; \<^verbatim>\<open>average_reward\<close> as it was otherwise) and \<open>pi\<close>
  the softmax of the preferences before the step, the chosen preference gains
  \<open>alpha * (reward - bl) * (1 - pi[a])\<close>, every other preference loses
  \<open>alpha * (reward - bl) * pi[i]\<close>, and the adjustments sum to zero. The method stores \<open>bl\<close>
  in \<^verbatim>\<open>average_reward\<close>, counts the attempt and advances \<^verbatim>\<open>t\<close>.
\<close>

theorem GradientAgent_observe_conserves:
  assumes "last_action self = Some a"
    and "a < length (action_attempts self)"
    and "a < length (value_estimates self)"
    and "bl = (if baseline self
               then average_reward self
                    + 1 / real (sum_list ((action_attempts self)[a := action_attempts self ! a + 1]))
                      * (reward - average_reward self)
               else average_reward self)"
  shows "\<exists>self'. GradientAgent_observe reward self = Inr self' \<and>
     average_reward self' = bl \<and>
     action_attempts self' = (action_attempts self)[a := action_attempts self ! a + 1] \<and>
     t self' = t self + 1 \<and>
     length (value_estimates self') = length (value_estimates self) \<and>
     value_estimates self' ! a - value_estimates self ! a =
       alpha self * (reward - bl) * (1 - softmax (value_estimates self) ! a) \<and>
     (\<forall>i. i < length (value_estimates self) \<and> i \<noteq> a \<longrightarrow>
        value_estimates self' ! i - value_estimates self ! i =
          - (alpha self * (reward - bl) * softmax (value_estimates self) ! i)) \<and>
     sum_list (map2 (-) (value_estimates self') (value_estimates self)) = 0"
proof -
  let ?v = "value_estimates self"
  let ?pi = "softmax ?v"
  have ob: "GradientAgent_observe reward self =
     Inr (self\<lparr> action_attempts := (action_attempts self)[a := action_attempts self ! a + 1],
               average_reward := bl,
               value_estimates :=
                 (map2 (\<lambda>v p. v - alpha self * (reward - bl) * p) ?v ?pi)
                 [a := ?v ! a + alpha self * (reward - bl) * (1 - ?pi ! a)],
               t := t self + 1 \<rparr>)"
    by (rule GradientAgent_observe_Some [OF assms])
  define d where "d = alpha self * (reward - bl)"
  define g where "g = (\<lambda>x. exp x / sum_list (map exp ?v))"
  have pi: "?pi = map g ?v" by (simp add: softmax_def g_def)
  define w where "w = (map (\<lambda>x. x - d * g x) ?v)[a := ?v ! a + d * (1 - ?pi ! a)]"
  have low: "map2 (\<lambda>v p. v - alpha self * (reward - bl) * p) ?v ?pi = map (\<lambda>x. x - d * g x) ?v"
    unfolding pi d_def by (rule map2_same)
  have lw: "length w = length ?v" by (simp add: w_def)
  have wa: "w ! a = ?v ! a + d * (1 - ?pi ! a)" using assms(3) by (simp add: w_def)
  have wi: "w ! i = ?v ! i - d * ?pi ! i" if "i < length ?v" "i \<noteq> a" for i
    using that by (simp add: w_def pi)
  have ne: "?v \<noteq> []" using assms(3) by auto
  have diff: "map2 (-) w ?v = (map (\<lambda>x. - (d * g x)) ?v)[a := d * (1 - ?pi ! a)]"
    using assms(3) by (auto simp: list_eq_iff_nth_eq w_def nth_list_update)
  have "sum_list (map2 (-) w ?v) =
          sum_list (map (\<lambda>x. - (d * g x)) ?v) - (- (d * g (?v ! a))) + d * (1 - ?pi ! a)"
    unfolding diff using assms(3) by (simp add: sum_list_update_real)
  also have "sum_list (map (\<lambda>x. - (d * g x)) ?v) = - d * sum_list (map g ?v)"
    by (simp add: sum_list_const_mult [symmetric])
  also have "sum_list (map g ?v) = 1" using softmax_sum [OF ne] by (simp add: pi)
  also have "g (?v ! a) = ?pi ! a" using assms(3) by (simp add: pi)
  finally have sum0: "sum_list (map2 (-) w ?v) = 0" by (simp add: algebra_simps)
  have ob': "GradientAgent_observe reward self =
     Inr (self\<lparr> action_attempts := (action_attempts self)[a := action_attempts self ! a + 1],
               average_reward := bl, value_estimates := w, t := t self + 1 \<rparr>)"
    unfolding ob low w_def d_def ..
  show ?thesis
    unfolding ob' using lw wa wi sum0 by (simp add: d_def)
qed

text \<open>The second step of an agent with the baseline enabled and \<open>alpha = 1\<close>: after reward 1
  on arm 0 (which moved no preference and set the baseline to 1), reward 3 on arm 1 moves
  the baseline to 2, raises the preference of arm 1 by \<open>1/2\<close> and lowers that of arm 0 by
  \<open>1/2\<close>.\<close>

theorem GradientAgent_observe_conserves_witness:
  "last_action ((GradientAgent_init 2 () 0 1 True)
      \<lparr> action_attempts := [1, 0], t := 1, last_action := Some 1, average_reward := 1 \<rparr>) = Some 1 \<and>
   action_attempts ((GradientAgent_init 2 () 0 1 True)
      \<lparr> action_attempts := [1, 0], t := 1, last_action := Some 1, average_reward := 1 \<rparr>) = [1, 0] \<and>
   value_estimates ((GradientAgent_init 2 () 0 1 True)
      \<lparr> action_attempts := [1, 0], t := 1, last_action := Some 1, average_reward := 1 \<rparr>) = [0, 0] \<and>
   (2::real) = 1 + 1 / real (sum_list [1, 1 :: nat]) * (3 - 1) \<and>
   (\<exists>self'. GradientAgent_observe 3 ((GradientAgent_init 2 () 0 1 True)
      \<lparr> action_attempts := [1, 0], t := 1, last_action := Some 1, average_reward := 1 \<rparr>) = Inr self' \<and>
      average_reward self' = 2 \<and>
      action_attempts self' = [1, 1] \<and>
      t self' = 2 \<and>
      value_estimates self' = [- (1 / 2), 1 / 2] \<and>
      sum_list (map2 (-) (value_estimates self') [0, 0]) = 0)"
proof -
  define s where "s = (GradientAgent_init 2 () 0 1 True)
      \<lparr> action_attempts := [1, 0], t := 1, last_action := Some 1, average_reward := 1 \<rparr>"
  have f: "last_action s = Some 1" "action_attempts s = [1, 0]" "value_estimates s = [0, 0]"
    "alpha s = 1" "baseline s" "average_reward s = 1" "t s = 1"
    by (simp_all add: s_def GradientAgent_init_def Agent_init_def agent.extend_def
        gradient_agent.fields_def numeral_nat)
  have h2: "1 < length (action_attempts s)" by (simp add: f)
  have h3: "1 < length (value_estimates s)" by (simp add: f)
  have h4: "(2::real) = (if baseline s
               then average_reward s
                    + 1 / real (sum_list ((action_attempts s)[1 := action_attempts s ! 1 + 1]))
                      * (3 - average_reward s)
               else average_reward s)"
    by (simp add: f)
  have sm: "softmax [0, 0] = [1 / 2, 1 / 2]" by (simp add: softmax_def)
  from GradientAgent_observe_conserves [OF f(1) h2 h3 h4] obtain self' where
    ob: "GradientAgent_observe 3 s = Inr self'"
    and av: "average_reward self' = 2"
    and at: "action_attempts self' = (action_attempts s)[1 := action_attempts s ! 1 + 1]"
    and tt: "t self' = t s + 1"
    and ln: "length (value_estimates self') = length (value_estimates s)"
    and va: "value_estimates self' ! 1 - value_estimates s ! 1 =
       alpha s * (3 - 2) * (1 - softmax (value_estimates s) ! 1)"
    and vi: "\<forall>i. i < length (value_estimates s) \<and> i \<noteq> 1 \<longrightarrow>
        value_estimates self' ! i - value_estimates s ! i =
          - (alpha s * (3 - 2) * softmax (value_estimates s) ! i)"
    and sm0: "sum_list (map2 (-) (value_estimates self') (value_estimates s)) = 0"
    by blast
  have "0 < length (value_estimates s) \<and> (0::nat) \<noteq> 1" by (simp add: f)
  with vi have v0: "value_estimates self' ! 0 - value_estimates s ! 0 =
          - (alpha s * (3 - 2) * softmax (value_estimates s) ! 0)"
    by blast
  from ln obtain x y where xy: "value_estimates self' = [x, y]"
    by (cases "value_estimates self'"; cases "tl (value_estimates self')") (auto simp: f)
  from va v0 have ve: "value_estimates self' = [- (1 / 2), 1 / 2]"
    by (simp add: xy f sm)
  have at': "action_attempts self' = [1, 1]" using at by (simp add: f)
  have tt': "t self' = 2" using tt by (simp add: f)
  have sm0': "sum_list (map2 (-) (value_estimates self') [0, 0]) = 0" using sm0 by (simp add: f)
  have ar: "(2::real) = 1 + 1 / real (sum_list [1, 1 :: nat]) * (3 - 1)" by simp
  have ex: "\<exists>self'. GradientAgent_observe 3 s = Inr self' \<and>
      average_reward self' = 2 \<and> action_attempts self' = [1, 1] \<and> t self' = 2 \<and>
      value_estimates self' = [- (1 / 2), 1 / 2] \<and>
      sum_list (map2 (-) (value_estimates self') [0, 0]) = 0"
    using ob av at' tt' ve sm0' by blast
  show ?thesis
    unfolding s_def [symmetric] using f(1,2,3) ar ex by blast
qed

section \<open>Properties of the Beta agent\<close>

text \<open>The posterior means are finite when no cell of \<open>alpha + beta\<close> is zero.\<close>

lemma posterior_mean_finite:
  assumes "length al = length be"
    and "\<forall>i<length al. al ! i + be ! i \<noteq> 0"
  shows "posterior_mean al be = Inr (map2 (\<lambda>x y. x / (x + y)) al be)"
proof -
  have "0 \<notin> set (map2 (+) al be)"
  proof
    assume "0 \<in> set (map2 (+) al be)"
    then obtain i where "i < length (map2 (+) al be)" "map2 (+) al be ! i = 0"
      by (auto simp: in_set_conv_nth)
    with assms show False by simp
  qed
  moreover have "map2 (/) al (map2 (+) al be) = map2 (\<lambda>x y. x / (x + y)) al be"
    using assms(1) by (induction al be rule: list_induct2) simp_all
  ultimately show ?thesis using assms(1) by (simp add: posterior_mean_def np_binop_def)
qed

lemma sums_pos_update:
  assumes "\<forall>i<length al. 0 < al ! i + be ! i"
    and "length al = length (be :: real list)" and "0 \<le> n"
  shows "\<forall>i<length (al[a := al ! a + r]).
           0 < al[a := al ! a + r] ! i + be[a := be ! a + (n - r)] ! i"
proof (intro allI impI)
  fix i assume "i < length (al[a := al ! a + r])"
  then have i: "i < length al" by simp
  with assms(1) have p: "0 < al ! i + be ! i" by simp
  show "0 < al[a := al ! a + r] ! i + be[a := be ! a + (n - r)] ! i"
  proof (cases "i = a")
    case True
    with i assms(2) have "al[a := al ! a + r] ! i + be[a := be ! a + (n - r)] ! i
        = al ! i + be ! i + n" by simp
    with p assms(3) show ?thesis by simp
  next
    case False
    with p show ?thesis by simp
  qed
qed

lemma BetaAgent_observe_Some:
  assumes "last_action self = Some a"
    and "a < length (action_attempts self)"
    and "a < length (prior_alpha self)"
    and "a < length (prior_beta self)"
    and "ts self \<or>
         (length (prior_alpha self) = length (prior_beta self) \<and>
          (\<forall>i<length (prior_alpha self). 0 < prior_alpha self ! i + prior_beta self ! i) \<and>
          0 \<le> ba_n self)"
  shows "BetaAgent_observe random reward self =
     Inr (self\<lparr> action_attempts := (action_attempts self)[a := action_attempts self ! a + 1],
               prior_alpha := (prior_alpha self)[a := prior_alpha self ! a + reward],
               prior_beta := (prior_beta self)[a := prior_beta self ! a + (ba_n self - reward)],
               value_estimates :=
                 (if ts self
                  then random ((prior_alpha self)[a := prior_alpha self ! a + reward])
                         ((prior_beta self)[a := prior_beta self ! a + (ba_n self - reward)])
                  else map2 (\<lambda>x y. x / (x + y))
                         ((prior_alpha self)[a := prior_alpha self ! a + reward])
                         ((prior_beta self)[a := prior_beta self ! a + (ba_n self - reward)])),
               t := t self + 1 \<rparr>)"
proof (cases "ts self")
  case True
  with assms(1-4) show ?thesis by (simp add: BetaAgent_observe_def Let_def)
next
  case False
  let ?al = "(prior_alpha self)[a := prior_alpha self ! a + reward]"
  let ?be = "(prior_beta self)[a := prior_beta self ! a + (ba_n self - reward)]"
  from False assms(5) have inv: "length (prior_alpha self) = length (prior_beta self)"
    "\<forall>i<length (prior_alpha self). 0 < prior_alpha self ! i + prior_beta self ! i"
    "0 \<le> ba_n self" by simp_all
  have "\<forall>i<length ?al. 0 < ?al ! i + ?be ! i"
    using inv(2,1,3) by (rule sums_pos_update)
  then have "\<forall>i<length ?al. ?al ! i + ?be ! i \<noteq> 0" by fastforce
  moreover have "length ?al = length ?be" using inv(1) by simp
  ultimately have "posterior_mean ?al ?be = Inr (map2 (\<lambda>x y. x / (x + y)) ?al ?be)"
    by (intro posterior_mean_finite)
  with False assms(1-4) show ?thesis by (simp add: BetaAgent_observe_def Let_def)
qed

text \<open>A run in which the policy picks the arm \<open>a\<close> at every step: the posterior of \<open>a\<close>
  accumulates the rewards.\<close>

lemma BetaAgent_run_same_arm:
  assumes "a < length (action_attempts self)"
    and "a < length (prior_alpha self)"
    and "length (prior_alpha self) = length (prior_beta self)"
    and "\<forall>i<length (prior_alpha self). 0 < prior_alpha self ! i + prior_beta self ! i"
    and "0 \<le> ba_n self"
  shows "\<exists>final. run (\<lambda>pol agent. Inr (Some a, pol)) (BetaAgent_observe random) rewards self =
            Inr (replicate (length rewards) (Some a), final) \<and>
          prior_alpha final = (prior_alpha self)[a := prior_alpha self ! a + sum_list rewards] \<and>
          prior_beta final = (prior_beta self)
            [a := prior_beta self ! a + (ba_n self * real (length rewards) - sum_list rewards)]"
  using assms
proof (induction rewards arbitrary: self)
  case Nil
  then show ?case by simp
next
  case (Cons r rewards)
  let ?c = "\<lambda>pol agent. Inr (Some a, pol) :: error + nat option \<times> 'a"
  let ?s1 = "self\<lparr> policy := policy self, last_action := Some a \<rparr>"
  let ?al = "(prior_alpha self)[a := prior_alpha self ! a + r]"
  let ?be = "(prior_beta self)[a := prior_beta self ! a + (ba_n self - r)]"
  have ch: "Agent_choose ?c self = Inr (Some a, ?s1)"
    by (simp add: Agent_choose_def)
  have b: "a < length (prior_beta self)" using Cons.prems(2,3) by simp
  define s2 where "s2 =
       ?s1\<lparr> action_attempts := (action_attempts ?s1)[a := action_attempts ?s1 ! a + 1],
               prior_alpha := (prior_alpha ?s1)[a := prior_alpha ?s1 ! a + r],
               prior_beta := (prior_beta ?s1)[a := prior_beta ?s1 ! a + (ba_n ?s1 - r)],
               value_estimates :=
                 (if ts ?s1
                  then random ((prior_alpha ?s1)[a := prior_alpha ?s1 ! a + r])
                         ((prior_beta ?s1)[a := prior_beta ?s1 ! a + (ba_n ?s1 - r)])
                  else map2 (\<lambda>x y. x / (x + y))
                         ((prior_alpha ?s1)[a := prior_alpha ?s1 ! a + r])
                         ((prior_beta ?s1)[a := prior_beta ?s1 ! a + (ba_n ?s1 - r)])),
               t := t ?s1 + 1 \<rparr>"
  have ob: "BetaAgent_observe random r ?s1 = Inr s2"
    unfolding s2_def using Cons.prems b by (intro BetaAgent_observe_Some) simp_all
  have s2: "prior_alpha s2 = ?al" "prior_beta s2 = ?be" "ba_n s2 = ba_n self"
      "length (action_attempts s2) = length (action_attempts self)"
    by (simp_all add: s2_def)
  have p1: "a < length (action_attempts s2)" using Cons.prems(1) s2 by simp
  have p2: "a < length (prior_alpha s2)" using Cons.prems(2) s2 by simp
  have p3: "length (prior_alpha s2) = length (prior_beta s2)" using Cons.prems(3) s2 by simp
  have p4: "\<forall>i<length (prior_alpha s2). 0 < prior_alpha s2 ! i + prior_beta s2 ! i"
    unfolding s2 using Cons.prems(4,3,5) by (rule sums_pos_update)
  have p5: "0 \<le> ba_n s2" using Cons.prems(5) s2 by simp
  from Cons.IH [OF p1 p2 p3 p4 p5] obtain final where
    rn: "run ?c (BetaAgent_observe random) rewards s2 =
            Inr (replicate (length rewards) (Some a), final)"
    and fa: "prior_alpha final = (prior_alpha s2)[a := prior_alpha s2 ! a + sum_list rewards]"
    and fb: "prior_beta final = (prior_beta s2)
            [a := prior_beta s2 ! a + (ba_n s2 * real (length rewards) - sum_list rewards)]"
    by blast
  have "run ?c (BetaAgent_observe random) (r # rewards) self =
          Inr (replicate (length (r # rewards)) (Some a), final)"
    using ch ob rn by simp
  moreover have "prior_alpha final =
      (prior_alpha self)[a := prior_alpha self ! a + sum_list (r # rewards)]"
    using Cons.prems(2) by (simp add: fa s2 add.assoc)
  moreover have "prior_beta final = (prior_beta self)
      [a := prior_beta self ! a + (ba_n self * real (length (r # rewards)) - sum_list (r # rewards))]"
    using b by (simp add: fb s2 algebra_simps)
  ultimately show ?case by blast
qed

text \<open>
  C8. For a \<^verbatim>\<open>BetaAgent\<close> whose last action is an arm \<open>a\<close> (an index of the arrays),
  \<^verbatim>\<open>observe(reward)\<close> adds \<open>reward\<close> to \<^verbatim>\<open>alpha[a]\<close> and \<open>n - reward\<close> to \<^verbatim>\<open>beta[a]\<close>, for every
  reward. This holds in Thompson-sampling mode without further condition; in
  posterior-mean mode for parameter arrays of one length with \<open>alpha[i] + beta[i] > 0\<close>
  in every cell and \<open>n \<ge> 0\<close>, where the means are finite. In particular, from the
  constructed agent with \<open>n = 1\<close>, the rewards \<open>[1, 0, 1]\<close> on one arm give \<open>alpha = 3\<close> and
  \<open>beta = 2\<close> for that arm and leave the other arms at 1.
\<close>

theorem BetaAgent_observe_posterior:
  "(last_action self = Some a \<and> a < length (action_attempts self) \<and>
    a < length (prior_alpha self) \<and> a < length (prior_beta self) \<and>
    (ts self \<or>
       (length (prior_alpha self) = length (prior_beta self) \<and>
        (\<forall>i<length (prior_alpha self). 0 < prior_alpha self ! i + prior_beta self ! i) \<and>
        0 \<le> ba_n self)) \<longrightarrow>
      (\<exists>self'. BetaAgent_observe random reward self = Inr self' \<and>
         prior_alpha self' = (prior_alpha self)[a := prior_alpha self ! a + reward] \<and>
         prior_beta self' = (prior_beta self)[a := prior_beta self ! a + (ba_n self - reward)])) \<and>
   (a' < K \<longrightarrow>
      (\<exists>final. run (\<lambda>pol agent. Inr (Some a', pol)) (BetaAgent_observe random) [1, 0, 1]
                  (BetaAgent_init K 1 pol thompson) = Inr ([Some a', Some a', Some a'], final) \<and>
         prior_alpha final = (replicate K 1)[a' := 3] \<and>
         prior_beta final = (replicate K 1)[a' := 2]))"
proof (intro conjI impI)
  assume h: "last_action self = Some a \<and> a < length (action_attempts self) \<and>
    a < length (prior_alpha self) \<and> a < length (prior_beta self) \<and>
    (ts self \<or>
       (length (prior_alpha self) = length (prior_beta self) \<and>
        (\<forall>i<length (prior_alpha self). 0 < prior_alpha self ! i + prior_beta self ! i) \<and>
        0 \<le> ba_n self))"
  show "\<exists>self'. BetaAgent_observe random reward self = Inr self' \<and>
         prior_alpha self' = (prior_alpha self)[a := prior_alpha self ! a + reward] \<and>
         prior_beta self' = (prior_beta self)[a := prior_beta self ! a + (ba_n self - reward)]"
    using h by (subst BetaAgent_observe_Some [where a = a]) simp_all
next
  assume a': "a' < K"
  let ?s = "BetaAgent_init K 1 pol thompson"
  have f: "action_attempts ?s = replicate K 0" "prior_alpha ?s = replicate K 1"
    "prior_beta ?s = replicate K 1" "ba_n ?s = 1"
    by (simp_all add: BetaAgent_init_def Agent_init_def agent.extend_def beta_agent.fields_def)
  have "\<exists>final. run (\<lambda>pol agent. Inr (Some a', pol)) (BetaAgent_observe random) [1, 0, 1] ?s =
            Inr (replicate (length [1, 0, 1 :: real]) (Some a'), final) \<and>
          prior_alpha final = (prior_alpha ?s)[a' := prior_alpha ?s ! a' + sum_list [1, 0, 1]] \<and>
          prior_beta final = (prior_beta ?s)
            [a' := prior_beta ?s ! a' + (ba_n ?s * real (length [1, 0, 1 :: real]) - sum_list [1, 0, 1])]"
    using a' by (intro BetaAgent_run_same_arm) (simp_all add: f)
  then show "\<exists>final. run (\<lambda>pol agent. Inr (Some a', pol)) (BetaAgent_observe random) [1, 0, 1] ?s
                  = Inr ([Some a', Some a', Some a'], final) \<and>
         prior_alpha final = (replicate K 1)[a' := 3] \<and>
         prior_beta final = (replicate K 1)[a' := 2]"
    using a' by (simp add: f numeral_nat)
qed

theorem BetaAgent_observe_posterior_witness:
  "last_action ((BetaAgent_init 2 1 () False)\<lparr> last_action := Some 0 \<rparr>) = Some 0 \<and>
   0 < length (action_attempts ((BetaAgent_init 2 1 () False)\<lparr> last_action := Some 0 \<rparr>)) \<and>
   \<not> ts ((BetaAgent_init 2 1 () False)\<lparr> last_action := Some 0 \<rparr>) \<and>
   prior_alpha ((BetaAgent_init 2 1 () False)\<lparr> last_action := Some 0 \<rparr>) = [1, 1] \<and>
   prior_beta ((BetaAgent_init 2 1 () False)\<lparr> last_action := Some 0 \<rparr>) = [1, 1] \<and>
   (0::real) \<le> ba_n ((BetaAgent_init 2 1 () False)\<lparr> last_action := Some 0 \<rparr>) \<and>
   (\<exists>self'. BetaAgent_observe (\<lambda>al be. al) 1
               ((BetaAgent_init 2 1 () False)\<lparr> last_action := Some 0 \<rparr>) = Inr self' \<and>
      prior_alpha self' = [2, 1] \<and> prior_beta self' = [1, 1]) \<and>
   (1::nat) < 2 \<and>
   (\<exists>final. run (\<lambda>pol agent. Inr (Some 1, pol)) (BetaAgent_observe (\<lambda>al be. al)) [1, 0, 1]
               (BetaAgent_init 2 1 () False) = Inr ([Some 1, Some 1, Some 1], final) \<and>
      prior_alpha final = [1, 3] \<and> prior_beta final = [1, 2])"
proof -
  let ?s = "(BetaAgent_init 2 1 () False)\<lparr> last_action := Some 0 \<rparr>"
  have f: "last_action ?s = Some 0" "action_attempts ?s = [0, 0]" "\<not> ts ?s"
    "prior_alpha ?s = [1, 1]" "prior_beta ?s = [1, 1]" "ba_n ?s = 1"
    by (simp_all add: BetaAgent_init_def Agent_init_def agent.extend_def beta_agent.fields_def
        numeral_nat)
  note inst = BetaAgent_observe_posterior
    [where self = ?s and a = 0 and reward = 1 and random = "\<lambda>al be. al" and a' = 1 and K = 2
       and pol = "()" and thompson = False]
  have pre: "last_action ?s = Some 0 \<and> 0 < length (action_attempts ?s) \<and>
    0 < length (prior_alpha ?s) \<and> 0 < length (prior_beta ?s) \<and>
    (ts ?s \<or>
       (length (prior_alpha ?s) = length (prior_beta ?s) \<and>
        (\<forall>i<length (prior_alpha ?s). 0 < prior_alpha ?s ! i + prior_beta ?s ! i) \<and>
        0 \<le> ba_n ?s))"
    by (simp add: f nth_Cons split: nat.split)
  from inst pre have "\<exists>self'. BetaAgent_observe (\<lambda>al be. al) 1 ?s = Inr self' \<and>
         prior_alpha self' = (prior_alpha ?s)[0 := prior_alpha ?s ! 0 + 1] \<and>
         prior_beta self' = (prior_beta ?s)[0 := prior_beta ?s ! 0 + (ba_n ?s - 1)]"
    by blast
  then have one: "\<exists>self'. BetaAgent_observe (\<lambda>al be. al) 1 ?s = Inr self' \<and>
      prior_alpha self' = [2, 1] \<and> prior_beta self' = [1, 1]"
    by (simp add: f)
  have lt: "(1::nat) < 2" by simp
  from inst lt have "\<exists>final. run (\<lambda>pol agent. Inr (Some 1, pol)) (BetaAgent_observe (\<lambda>al be. al))
               [1, 0, 1] (BetaAgent_init 2 1 () False) = Inr ([Some 1, Some 1, Some 1], final) \<and>
         prior_alpha final = (replicate 2 1)[1 := 3] \<and>
         prior_beta final = (replicate 2 1)[1 := 2]"
    by blast
  then have two: "\<exists>final. run (\<lambda>pol agent. Inr (Some 1, pol)) (BetaAgent_observe (\<lambda>al be. al))
               [1, 0, 1] (BetaAgent_init 2 1 () False) = Inr ([Some 1, Some 1, Some 1], final) \<and>
      prior_alpha final = [1, 3] \<and> prior_beta final = [1, 2]"
    by (simp add: numeral_nat)
  from f one lt two show ?thesis by simp
qed

section \<open>Properties of the policies\<close>

text \<open>
  C5, as the code has it. The constructors do not validate: \<^verbatim>\<open>EpsilonGreedyPolicy(epsilon)\<close>
  and \<^verbatim>\<open>UCBPolicy(c)\<close> succeed for every \<open>epsilon\<close> and every \<open>c\<close> and store the value as
  given.
\<close>

theorem policy_init_accepts_all:
  "EpsilonGreedyPolicy_init eps = Inr \<lparr> epsilon = eps \<rparr> \<and>
   UCBPolicy_init c = Inr \<lparr> ucb_c = c \<rparr>"
  by (simp add: EpsilonGreedyPolicy_init_def UCBPolicy_init_def)

theorem policy_init_counterexample:
  "\<not> (2::real) \<le> 1 \<and> EpsilonGreedyPolicy_init 2 = Inr \<lparr> epsilon = 2 \<rparr> \<and>
   (- 1::real) \<le> 0 \<and> UCBPolicy_init (- 1) = Inr \<lparr> ucb_c = - 1 \<rparr>"
  by (simp add: EpsilonGreedyPolicy_init_def UCBPolicy_init_def)

text \<open>
  C3, as the code has it. For an arm \<open>i\<close> with \<^verbatim>\<open>action_attempts[i] == 0\<close> and a coefficient
  \<open>c > 0\<close>, the bonus that \<^verbatim>\<open>UCBPolicy.choose\<close> computes is \<open>+inf\<close> whenever \<open>t \<ge> 1\<close>:
  \<open>ln (t + 1) / 0\<close> is \<open>inf\<close>, which \<^verbatim>\<open>np.isnan\<close> does not select. It is 0 only for \<open>t = 0\<close>,
  where \<open>0 / 0\<close> is \<open>nan\<close> and is overwritten. It is never \<open>nan\<close>.
\<close>

theorem UCBPolicy_exploration_zero_attempts:
  assumes "i < length (action_attempts agent)"
    and "action_attempts agent ! i = 0"
    and "0 < ucb_c self"
  shows "\<exists>exploration. UCBPolicy_exploration self agent = Inr exploration \<and>
           exploration ! i = (if t agent = 0 then Fin 0 else PInf)"
proof -
  have pos: "0 < ln (real (t agent + 1))" if "t agent \<noteq> 0"
    using that by simp
  have d: "np_divide (ln (real (t agent + 1))) (action_attempts agent ! i) =
             (if t agent = 0 then NaN else PInf)"
    using assms(2) pos by (auto simp: np_divide_def)
  show ?thesis
    using assms(1,3) d by (simp add: UCBPolicy_exploration_def Let_def)
qed

theorem UCBPolicy_exploration_zero_attempts_witness:
  "(0::nat) < length (action_attempts ((Agent_init 2 () 0 None)\<lparr> action_attempts := [0, 1], t := 1 \<rparr>)) \<and>
   action_attempts ((Agent_init 2 () 0 None)\<lparr> action_attempts := [0, 1], t := 1 \<rparr>) ! 0 = 0 \<and>
   0 < ucb_c \<lparr> ucb_c = 2 \<rparr> \<and>
   (\<exists>exploration.
      UCBPolicy_exploration \<lparr> ucb_c = 2 \<rparr>
        ((Agent_init 2 () 0 None)\<lparr> action_attempts := [0, 1], t := 1 \<rparr>) = Inr exploration \<and>
      exploration ! 0 = PInf)"
  using UCBPolicy_exploration_zero_attempts
    [of 0 "(Agent_init 2 () 0 None)\<lparr> action_attempts := [0, 1], t := 1 \<rparr>" "\<lparr> ucb_c = 2 \<rparr>"]
  by simp

theorem UCBPolicy_exploration_counterexample:
  "action_attempts ((Agent_init 2 () 0 None)\<lparr> action_attempts := [0, 1], t := 1 \<rparr>) = [0, 1] \<and>
   t ((Agent_init 2 () 0 None)\<lparr> action_attempts := [0, 1], t := 1 \<rparr>) = 1 \<and>
   UCBPolicy_exploration \<lparr> ucb_c = 2 \<rparr>
     ((Agent_init 2 () 0 None)\<lparr> action_attempts := [0, 1], t := 1 \<rparr>)
     = Inr [PInf, Fin (ln 2 powr (1 / 2))] \<and>
   PInf \<noteq> Fin 0"
  by (simp add: UCBPolicy_exploration_def np_divide_def Agent_init_def Let_def)

text \<open>The sum of a value estimate and an infinite bonus is infinite: the untried arm
  has the greatest \<open>q\<close>.\<close>

lemma UCBPolicy_q_zero_attempts:
  assumes "i < length (action_attempts agent)"
    and "action_attempts agent ! i = 0"
    and "0 < ucb_c self"
    and "length (value_estimates agent) = length (action_attempts agent)"
  shows "\<exists>q. UCBPolicy_q self agent = Inr q \<and>
           q ! i = (if t agent = 0 then Fin (value_estimates agent ! i) else PInf)"
proof -
  have pos: "0 < ln (real (t agent + 1))" if "t agent \<noteq> 0"
    using that by simp
  have d: "np_divide (ln (real (t agent + 1))) (action_attempts agent ! i) =
             (if t agent = 0 then NaN else PInf)"
    using assms(2) pos by (auto simp: np_divide_def)
  show ?thesis
    using assms(1,3,4) d
    by (simp add: UCBPolicy_q_def UCBPolicy_exploration_def np_binop_def Let_def)
qed

text \<open>Whatever the agents hold, a policy constructed with \<open>N \<ge> 1\<close> answers 0 at every
  call and is not changed by the calls.\<close>

lemma FrequentistPolicy_calls_stuck:
  "0 < N \<Longrightarrow> FrequentistPolicy_calls (FrequentistPolicy_init N) agents =
     Inr (replicate (length agents) (Some 0), FrequentistPolicy_init N)"
  by (induction agents) (simp_all add: FrequentistPolicy_choose_def FrequentistPolicy_init_def)

text \<open>
  C1, on the code. With \<open>N = 3\<close> and four arms the policy answers 0 at every call: it never
  advances its counter \<^verbatim>\<open>n\<close> and never records \<^verbatim>\<open>_last_choice\<close>, so it stays in the first
  branch with \<^verbatim>\<open>_last_choice\<close> undefined. After four steps with reward \<open>-1\<close> the second
  choice is 0 (round robin would give 1) and the fourth is 0 although the maximal estimate
  is at arm 1; the policy object is as constructed.
\<close>

theorem FrequentistPolicy_choose_stuck:
  "(case run FrequentistPolicy_choose Agent_observe [- 1, - 1, - 1, - 1]
            (Agent_init 4 (FrequentistPolicy_init 3) 0 None) of
      Inl e \<Rightarrow> False
    | Inr (actions, self) \<Rightarrow>
        actions = [Some 0, Some 0, Some 0, Some 0] \<and>
        policy self = FrequentistPolicy_init 3 \<and>
        value_estimates self = [- 1, 0, 0, 0] \<and>
        np_argmax (value_estimates self) = Inr 1)"
  by (simp add: Agent_choose_def FrequentistPolicy_choose_def FrequentistPolicy_init_def
      Agent_init_def Agent_observe_def np_argmax_def numeral_nat Let_def)

section \<open>Properties of the frequentist agent\<close>

text \<open>From the constructed agent over \<open>K\<close> arms the first \<open>K + 1\<close> calls of
  \<^verbatim>\<open>rand_choice\<close> return \<open>0, 1, ..., K\<close>: the last of them is \<open>K\<close> itself.\<close>

lemma rand_choices_from:
  "0 \<le> fa_n self \<Longrightarrow> fa_last_choice self + m \<le> num_arm self \<Longrightarrow>
     fst (rand_choices m self) = [fa_last_choice self + 1 ..< fa_last_choice self + 1 + m]"
proof (induction m arbitrary: self)
  case 0
  then show ?case by simp
next
  case (Suc m)
  let ?s1 = "self\<lparr> fa_n := fa_n self + 1, fa_last_choice := fa_last_choice self + 1 \<rparr>"
  have rc: "rand_choice self = (fa_last_choice self + 1, ?s1)"
    using Suc.prems by (simp add: rand_choice_def Let_def)
  have "fst (rand_choices m ?s1) = [fa_last_choice ?s1 + 1 ..< fa_last_choice ?s1 + 1 + m]"
    using Suc.prems by (intro Suc.IH) simp_all
  then show ?case
    using rc by (simp add: split_beta upt_conv_Cons)
qed

lemma rand_choices_init:
  "fst (rand_choices (Suc K) (FrequentistAgent_init K pol)) = [0 ..< Suc K]"
proof -
  let ?s0 = "FrequentistAgent_init K pol"
  let ?s1 = "?s0\<lparr> fa_n := 0 \<rparr>"
  have f: "fa_n ?s0 = - 1" "fa_last_choice ?s0 = 0" "num_arm ?s0 = K"
    by (simp_all add: FrequentistAgent_init_def Agent_init_def agent.extend_def
        frequentist_agent.fields_def Let_def)
  have rc: "rand_choice ?s0 = (0, ?s1)"
    by (simp add: rand_choice_def Let_def f)
  have "fst (rand_choices K ?s1) = [fa_last_choice ?s1 + 1 ..< fa_last_choice ?s1 + 1 + K]"
    by (intro rand_choices_from) (simp_all add: f)
  then show ?thesis
    using rc by (simp add: split_beta f upt_conv_Cons del: upt_Suc)
qed

text \<open>
  C9, on the code. With two arms the third call of \<^verbatim>\<open>rand_choice\<close> returns 2, which is not
  an arm: the counter wraps when it equals \<^verbatim>\<open>num_arm\<close>, one step late.
\<close>

theorem rand_choice_out_of_range:
  "k (FrequentistAgent_init 2 ()) = 2 \<and>
   fst (rand_choices 4 (FrequentistAgent_init 2 ())) = [0, 1, 2, 0]"
  by (simp add: numeral_nat rand_choice_def FrequentistAgent_init_def Agent_init_def
      agent.extend_def frequentist_agent.fields_def Let_def)

text \<open>The other three classes: \<^verbatim>\<open>reset\<close> gives the constructed agent back.\<close>

lemma Agent_reset_init:
  fixes self :: "'p agent"
  assumes "length (value_estimates self) = k self" and "length (action_attempts self) = k self"
  shows "Agent_reset self = Agent_init (k self) (policy self) (prior self) (gamma self)"
  using assms by (simp add: Agent_reset_def Agent_init_def map_replicate_const)

lemma GradientAgent_reset_init:
  fixes self :: "'p gradient_agent"
  assumes "length (value_estimates self) = k self" and "length (action_attempts self) = k self"
    and "gamma self = None"
  shows "GradientAgent_reset self =
           GradientAgent_init (k self) (policy self) (prior self) (alpha self) (baseline self)"
  using assms
  by (simp add: GradientAgent_reset_def GradientAgent_init_def Agent_reset_def Agent_init_def
      map_replicate_const agent.extend_def gradient_agent.fields_def)

lemma BetaAgent_reset_init:
  fixes self :: "'p beta_agent"
  assumes "length (value_estimates self) = k self" and "length (action_attempts self) = k self"
    and "gamma self = None" and "prior self = 0"
  shows "BetaAgent_reset self = BetaAgent_init (k self) (ba_n self) (policy self) (ts self)"
  using assms
  by (simp add: BetaAgent_reset_def BetaAgent_init_def Agent_reset_def Agent_init_def
      map_replicate_const agent.extend_def beta_agent.fields_def)

text \<open>
  C4, on the code. \<^verbatim>\<open>FrequentistAgent.reset\<close> leaves the fields of the base class as they
  are. After one step with reward 1 on arm 0 and a reset, the estimates are \<open>[1, 0]\<close>, the
  attempts \<open>[1, 0]\<close>, \<^verbatim>\<open>t\<close> is 1 and \<^verbatim>\<open>last_action\<close> is 0: not the constructed agent.
\<close>

theorem FrequentistAgent_reset_keeps_base:
  "(case run Policy_choose Agent_observe [1] (FrequentistAgent_init 2 ()) of
      Inl e \<Rightarrow> False
    | Inr (actions, self) \<Rightarrow>
        actions = [Some 0] \<and>
        value_estimates (FrequentistAgent_reset self) = [1, 0] \<and>
        action_attempts (FrequentistAgent_reset self) = [1, 0] \<and>
        t (FrequentistAgent_reset self) = 1 \<and>
        last_action (FrequentistAgent_reset self) = Some 0 \<and>
        FrequentistAgent_reset self \<noteq> FrequentistAgent_init 2 ())"
  by (simp add: Agent_choose_def Policy_choose_def FrequentistAgent_init_def
      FrequentistAgent_reset_def Agent_init_def Agent_observe_def numeral_nat Let_def
      agent.extend_def frequentist_agent.fields_def)

end
